theory Spec2Isabelle
  imports Main "HOL-Library.AList"
begin

section \<open>Strings and values of the host language\<close>

text \<open>
  JavaScript strings are modelled as \<^typ>\<open>string\<close>, whose characters are bytes.
  \<open>String.prototype.trim\<close> removes white space at both ends (of the white space
  characters of the language, those that fit a byte); \<open>String.prototype.includes\<close>
  is the substring test; a string is truthy when it is not empty.
\<close>

definition isWhiteSpace :: "char \<Rightarrow> bool" where
  "isWhiteSpace c = (c \<in> set [CHR 0x09, CHR 0x0A, CHR 0x0B, CHR 0x0C, CHR 0x0D, CHR 0x20, CHR 0xA0])"

definition trim :: "string \<Rightarrow> string" where
  "trim s = rev (dropWhile isWhiteSpace (rev (dropWhile isWhiteSpace s)))"

fun startsWith :: "string \<Rightarrow> string \<Rightarrow> bool" where
  "startsWith s [] = True"
| "startsWith [] (c # cs) = False"
| "startsWith (x # xs) (c # cs) = (x = c \<and> startsWith xs cs)"

fun str_includes :: "string \<Rightarrow> string \<Rightarrow> bool" where
  "str_includes [] sub = (sub = [])"
| "str_includes (x # xs) sub = (startsWith (x # xs) sub \<or> str_includes xs sub)"

definition truthy :: "string \<Rightarrow> bool" where
  "truthy s = (s \<noteq> [])"

text \<open>Decimal rendering of a non-negative number, as \<open>Number.prototype.toString\<close>
  and template literals produce it.\<close>

definition digit_char :: "nat \<Rightarrow> char" where
  "digit_char d = char_of (48 + d)"

fun toString :: "nat \<Rightarrow> string" where
  "toString n = (if n < 10 then [digit_char n] else toString (n div 10) @ [digit_char (n mod 10)])"

declare toString.simps [simp del]

text \<open>The values the key-value store can hold: anything JSON can serialise.\<close>

datatype json =
    JNull
  | JBool bool
  | JNum int
  | JStr string
  | JArr "json list"
  | JObj "(string \<times> json) list"

text \<open>
  Errors are values. A promise that rejects, or a function that throws, returns
  \<open>Inl\<close> of one of these.
\<close>

datatype error =
    StorageError string
  | TypeError string
  | Error string "string option" "nat option"

text \<open>\<open>error.message\<close>, \<open>error.code\<close> and \<open>error.status\<close>. An \<open>Error\<close> carries the
  message it was made with and the \<open>code\<close> and \<open>status\<close> assigned to it afterwards,
  if any.\<close>

fun messageOf :: "error \<Rightarrow> string" where
  "messageOf (StorageError m) = m"
| "messageOf (TypeError m) = m"
| "messageOf (Error m c s) = m"

fun codeOf :: "error \<Rightarrow> string option" where
  "codeOf (Error m c s) = c"
| "codeOf e = None"

fun statusOf :: "error \<Rightarrow> nat option" where
  "statusOf (Error m c s) = s"
| "statusOf e = None"

section \<open>storage.js: the key-value store wrapper\<close>

text \<open>
  \<open>chrome.storage.local\<close> is a platform service, not code of the extension. It is
  modelled as an association list from keys to values, insertion-ordered like a
  JavaScript object. \<open>get\<close> yields the entries of the requested keys, \<open>set\<close>
  merges the given entries into the area, \<open>remove\<close> deletes the given keys. Each
  call of the platform reports through \<open>chrome.runtime.lastError\<close>; the outcome of
  that report is a parameter of the wrapper (\<open>None\<close>: the call went through). A call
  that reports an error leaves the area as it was.
\<close>

type_synonym 'v storage_area = "(string \<times> 'v) list"

definition chrome_storage_get :: "string list \<Rightarrow> 'v storage_area \<Rightarrow> (string \<times> 'v) list" where
  "chrome_storage_get keys area = AList.restrict (set keys) area"

definition chrome_storage_set :: "(string \<times> 'v) list \<Rightarrow> 'v storage_area \<Rightarrow> 'v storage_area" where
  "chrome_storage_set data area = AList.merge area data"

definition chrome_storage_remove :: "string list \<Rightarrow> 'v storage_area \<Rightarrow> 'v storage_area" where
  "chrome_storage_remove keys area = AList.restrict (- set keys) area"

definition getStorageData ::
  "string list \<Rightarrow> string option \<Rightarrow> 'v storage_area \<Rightarrow> error + (string \<times> 'v) list" where
  "getStorageData keys lastError area =
     (case lastError of
        Some e \<Rightarrow> Inl (StorageError e)
      | None \<Rightarrow> Inr (chrome_storage_get keys area))"

definition setStorageData ::
  "(string \<times> 'v) list \<Rightarrow> string option \<Rightarrow> 'v storage_area \<Rightarrow> (error + unit) \<times> 'v storage_area" where
  "setStorageData data lastError area =
     (case lastError of
        Some e \<Rightarrow> (Inl (StorageError e), area)
      | None \<Rightarrow> (Inr (), chrome_storage_set data area))"

definition removeStorageData ::
  "string list \<Rightarrow> string option \<Rightarrow> 'v storage_area \<Rightarrow> (error + unit) \<times> 'v storage_area" where
  "removeStorageData keys lastError area =
     (case lastError of
        Some e \<Rightarrow> (Inl (StorageError e), area)
      | None \<Rightarrow> (Inr (), chrome_storage_remove keys area))"

section \<open>storage.js: saved tabs grouped by category\<close>

record tabEntry =
  tab_id :: string
  tab_title :: string
  tab_url :: string
  tab_note :: string
  tab_savedAt :: string

text \<open>The argument of \<open>saveTab\<close>. A field the caller left \<open>undefined\<close> is \<open>None\<close>.\<close>

record tabData =
  td_title :: "string option"
  td_url :: "string option"
  td_note :: "string option"
  td_group :: string

text \<open>The clock: \<open>Date.now()\<close> and \<open>new Date().toISOString()\<close>.\<close>

record clock =
  now_ms :: nat
  now_iso :: string

type_synonym savedTabs = "(string \<times> tabEntry list) list"

definition SAVED_TABS :: string where
  "SAVED_TABS = ''savedTabs''"

text \<open>
  Reading a property of a plain object finds its own keys first and then those it
  inherits from \<open>Object.prototype\<close>, all of which are truthy and none of which is an
  array.
\<close>

definition objectPrototypeKeys :: "string list" where
  "objectPrototypeKeys =
     [''constructor'', ''__proto__'', ''hasOwnProperty'', ''isPrototypeOf'',
      ''propertyIsEnumerable'', ''toLocaleString'', ''toString'', ''valueOf'',
      ''__defineGetter__'', ''__defineSetter__'', ''__lookupGetter__'', ''__lookupSetter__'']"

datatype 'a property = Own 'a | Inherited | Undefined

definition getProperty :: "(string \<times> 'a) list \<Rightarrow> string \<Rightarrow> 'a property" where
  "getProperty obj k =
     (case map_of obj k of
        Some v \<Rightarrow> Own v
      | None \<Rightarrow> if k \<in> set objectPrototypeKeys then Inherited else Undefined)"

text \<open>\<open>getSavedTabs\<close> catches a failed read and answers with the empty object.\<close>

definition getSavedTabs :: "string option \<Rightarrow> savedTabs storage_area \<Rightarrow> savedTabs" where
  "getSavedTabs lastError area =
     (case getStorageData [SAVED_TABS] lastError area of
        Inl e \<Rightarrow> []
      | Inr result \<Rightarrow> (case map_of result SAVED_TABS of Some tabs \<Rightarrow> tabs | None \<Rightarrow> []))"

text \<open>
  \<open>saveTab\<close>: read, create the group if the lookup is falsy, build the entry (the
  \<open>trim\<close> of an undefined field throws), push, write back. Whatever is thrown is
  logged and thrown again, and nothing has been written then. The two
  \<open>lastError\<close> parameters are the outcomes of the read and of the write.
\<close>

definition saveTab ::
  "tabData \<Rightarrow> clock \<Rightarrow> string option \<Rightarrow> string option \<Rightarrow> savedTabs storage_area
     \<Rightarrow> (error + tabEntry) \<times> savedTabs storage_area" where
  "saveTab tabData clk getError setError area =
     (let savedTabs = getSavedTabs getError area;
          group = td_group tabData;
          savedTabs1 = (case getProperty savedTabs group of
                          Undefined \<Rightarrow> AList.update group [] savedTabs
                        | _ \<Rightarrow> savedTabs)
      in case (td_title tabData, td_url tabData) of
           (None, _) \<Rightarrow> (Inl (TypeError ''Cannot read properties of undefined (reading 'trim')''), area)
         | (Some _, None) \<Rightarrow> (Inl (TypeError ''Cannot read properties of undefined (reading 'trim')''), area)
         | (Some t, Some u) \<Rightarrow>
             (let tabEntry = \<lparr> tab_id = toString (now_ms clk),
                               tab_title = trim t,
                               tab_url = trim u,
                               tab_note = (case td_note tabData of
                                         Some n \<Rightarrow> if truthy n then trim n else []
                                       | None \<Rightarrow> []),
                               tab_savedAt = now_iso clk \<rparr>
              in case getProperty savedTabs1 group of
                   Own tabs \<Rightarrow>
                     (case setStorageData [(SAVED_TABS, AList.update group (tabs @ [tabEntry]) savedTabs1)]
                             setError area of
                        (Inl e, area') \<Rightarrow> (Inl e, area')
                      | (Inr _, area') \<Rightarrow> (Inr tabEntry, area'))
                 | _ \<Rightarrow> (Inl (TypeError ''savedTabs[group].push is not a function''), area)))"

text \<open>
  \<open>deleteSavedTab\<close>: when the group lookup is truthy, filter the tab out, delete the
  group key if nothing is left, write back.
\<close>

definition deleteSavedTab ::
  "string \<Rightarrow> string \<Rightarrow> string option \<Rightarrow> string option \<Rightarrow> savedTabs storage_area
     \<Rightarrow> (error + unit) \<times> savedTabs storage_area" where
  "deleteSavedTab groupName tabId getError setError area =
     (let savedTabs = getSavedTabs getError area
      in case getProperty savedTabs groupName of
           Undefined \<Rightarrow> (Inr (), area)
         | Inherited \<Rightarrow> (Inl (TypeError ''savedTabs[groupName].filter is not a function''), area)
         | Own tabs \<Rightarrow>
             (let kept = filter (\<lambda>tab. tab_id tab \<noteq> tabId) tabs;
                  savedTabs1 = AList.update groupName kept savedTabs;
                  savedTabs2 = (if length kept = 0 then AList.delete groupName savedTabs1
                                else savedTabs1)
              in setStorageData [(SAVED_TABS, savedTabs2)] setError area))"

definition clearAllSavedTabs ::
  "string option \<Rightarrow> savedTabs storage_area \<Rightarrow> (error + unit) \<times> savedTabs storage_area" where
  "clearAllSavedTabs lastError area = removeStorageData [SAVED_TABS] lastError area"

text \<open>A history of calls on the grouped store, each with the outcomes of its platform calls.\<close>

datatype storeOp =
    SaveTab tabData clock "string option" "string option"
  | DeleteSavedTab string string "string option" "string option"
  | ClearAllSavedTabs "string option"

fun applyOp :: "storeOp \<Rightarrow> savedTabs storage_area \<Rightarrow> savedTabs storage_area" where
  "applyOp (SaveTab d c ge se) area = snd (saveTab d c ge se area)"
| "applyOp (DeleteSavedTab g i ge se) area = snd (deleteSavedTab g i ge se area)"
| "applyOp (ClearAllSavedTabs e) area = snd (clearAllSavedTabs e area)"

fun applyOps :: "storeOp list \<Rightarrow> savedTabs storage_area \<Rightarrow> savedTabs storage_area" where
  "applyOps [] area = area"
| "applyOps (op # ops) area = applyOps ops (applyOp op area)"

text \<open>No group of the object holds the empty list; a store is fine when every
  object stored under the \<open>savedTabs\<close> key is.\<close>

definition noEmptyGroup :: "savedTabs \<Rightarrow> bool" where
  "noEmptyGroup tabs = list_all (\<lambda>(g, ts). ts \<noteq> []) tabs"

definition storeNoEmptyGroup :: "savedTabs storage_area \<Rightarrow> bool" where
  "storeNoEmptyGroup area = list_all (\<lambda>(k, tabs). k = SAVED_TABS \<longrightarrow> noEmptyGroup tabs) area"

section \<open>The state of the extension and of the platform it runs on\<close>

text \<open>
  What an element of the side panel shows. The markup is abstracted to the
  template that produced it: the login placeholder of \<open>showLoginPrompt\<close>, a loading
  indicator, an error box with its text, the rendering of a collection, or nothing.
\<close>

datatype pane =
    Blank
  | LoginPrompt
  | LoadingMessage
  | ErrorMessage string
  | Rendered "json list"

text \<open>A saved link of LinkHive, as \<open>getSavedTabsArray\<close> normalises it.\<close>

record savedLink =
  link_id :: string
  link_title :: string
  link_url :: string
  link_note :: string
  link_group :: string
  link_starred :: bool

text \<open>What the extension asks of the platform, in the order it asks.\<close>

datatype effect =
    GetAuthToken bool
  | RemoveCachedAuthToken string
  | Fetch string string
  | SendMessage string

text \<open>
  One record holds the module-level variables of the side panel (sidepanel.js and
  savetab.js share a page), the elements of its document that the modelled
  functions touch (\<open>None\<close>: the element is missing, so \<open>getElementById\<close> is
  \<open>null\<close>), and the platform: the token cache of \<open>chrome.identity\<close>, the two
  storage areas, and the log of platform calls.
\<close>

record world =
  isAuthenticated :: bool
  currentTasks :: "json list"
  currentEvents :: "json list"
  starredTasks :: "string set"
  savedTabsCache :: "savedLink list"
  tasksList :: "pane option"
  eventsList :: "pane option"
  noEventsMessage :: "string option"
  authStatusDot :: "bool option"
  authBtnLabel :: "string option"
  statusMessages :: "(string \<times> string) list option"
  todoContent :: bool
  savedTabsList :: "(string \<times> savedLink list) list option"
  cachedToken :: "string option"
  storageLocal :: "json storage_area"
  storageSync :: "json storage_area"
  trace :: "effect list"

definition logEffect :: "effect \<Rightarrow> world \<Rightarrow> world" where
  "logEffect e w = w\<lparr>trace := trace w @ [e]\<rparr>"

text \<open>
  \<open>chrome.identity.getAuthToken\<close> hands its callback a token and reports failure
  through \<open>chrome.runtime.lastError\<close>. The platform answers from its cache when it
  holds a token; otherwise a non-interactive call fails, and an interactive call
  asks the user, whose answer is the parameter \<open>grant\<close> (\<open>None\<close>: the prompt was
  dismissed). A granted token is cached. \<open>removeCachedAuthToken\<close> drops the given
  token from the cache.
\<close>

definition chrome_identity_getAuthToken ::
  "bool \<Rightarrow> string option \<Rightarrow> world \<Rightarrow> (string option \<times> string option) \<times> world" where
  "chrome_identity_getAuthToken interactive grant w =
     (let w1 = logEffect (GetAuthToken interactive) w
      in case cachedToken w1 of
           Some t \<Rightarrow> ((None, Some t), w1)
         | None \<Rightarrow>
             if interactive then
               (case grant of
                  Some t \<Rightarrow> ((None, Some t), w1\<lparr>cachedToken := Some t\<rparr>)
                | None \<Rightarrow> ((Some ''The user did not approve access.'', None), w1))
             else ((Some ''OAuth2 not granted or revoked.'', None), w1))"

definition chrome_identity_removeCachedAuthToken :: "string \<Rightarrow> world \<Rightarrow> world" where
  "chrome_identity_removeCachedAuthToken token w =
     (let w1 = logEffect (RemoveCachedAuthToken token) w
      in if cachedToken w1 = Some token then w1\<lparr>cachedToken := None\<rparr> else w1)"

text \<open>
  What \<open>fetch\<close> comes back with: it rejects when the network fails, and otherwise
  resolves to a response with its status, status text and parsed body.
\<close>

datatype fetchResult =
    NetworkFailure string
  | HttpResponse nat string json

definition ok :: "nat \<Rightarrow> bool" where
  "ok st = (200 \<le> st \<and> st \<le> 299)"

text \<open>
  \<open>data.items || []\<close>: reading a property of \<open>null\<close> throws; a body without an
  \<open>items\<close> array yields the empty list.
\<close>

fun itemsOf :: "json \<Rightarrow> error + json list" where
  "itemsOf JNull = Inl (TypeError ''Cannot read properties of null (reading 'items')'')"
| "itemsOf (JObj kvs) = (case map_of kvs ''items'' of Some (JArr xs) \<Rightarrow> Inr xs | _ \<Rightarrow> Inr [])"
| "itemsOf v = Inr []"

section \<open>background.js: credentials and the Tasks API\<close>

text \<open>What the promise of \<open>getToken\<close> resolves to, given what the platform handed
  the callback. There is no \<open>reject\<close> in it.\<close>

definition getToken_callback :: "string option \<Rightarrow> string option \<Rightarrow> error + string option" where
  "getToken_callback lastError token =
     (case lastError of
        Some e \<Rightarrow> Inr None
      | None \<Rightarrow>
          (case token of
             Some t \<Rightarrow> if truthy t then Inr (Some t) else Inr None
           | None \<Rightarrow> Inr None))"

definition getToken :: "bool \<Rightarrow> string option \<Rightarrow> world \<Rightarrow> (error + string option) \<times> world" where
  "getToken interactive grant w =
     (case chrome_identity_getAuthToken interactive grant w of
        ((lastError, token), w1) \<Rightarrow> (getToken_callback lastError token, w1))"

text \<open>
  \<open>signOut\<close>: acquire without prompting, stop if there is no token, ask Google to
  revoke it (a failure of that request is logged and swallowed), then evict it from
  the platform cache.
\<close>

definition signOut :: "fetchResult \<Rightarrow> world \<Rightarrow> (error + unit) \<times> world" where
  "signOut revoked w =
     (case getToken False None w of
        (Inl e, w1) \<Rightarrow> (Inl e, w1)
      | (Inr None, w1) \<Rightarrow> (Inr (), w1)
      | (Inr (Some token), w1) \<Rightarrow>
          (let w2 = logEffect (Fetch ''GET'' (''https://accounts.google.com/o/oauth2/revoke?token='' @ token)) w1
           in (Inr (), chrome_identity_removeCachedAuthToken token w2)))"

text \<open>The background's \<open>getTasks\<close> acquires the token interactively.\<close>

definition bg_getTasks :: "string option \<Rightarrow> fetchResult \<Rightarrow> world \<Rightarrow> (error + json list) \<times> world" where
  "bg_getTasks grant fetched w =
     (case getToken True grant w of
        (Inl e, w1) \<Rightarrow> (Inl e, w1)
      | (Inr None, w1) \<Rightarrow> (Inl (Error ''Authentication required'' None None), w1)
      | (Inr (Some token), w1) \<Rightarrow>
          (let w2 = logEffect (Fetch ''GET'' ''https://www.googleapis.com/tasks/v1/lists/@default/tasks'') w1
           in case fetched of
                NetworkFailure m \<Rightarrow> (Inl (TypeError m), w2)
              | HttpResponse st txt body \<Rightarrow>
                  if \<not> ok st then
                    (Inl (Error (''Tasks API error: '' @ toString st @ '' '' @ txt) None None), w2)
                  else (itemsOf body, w2)))"

text \<open>A reply of the background script to a message of the side panel.\<close>

record response =
  r_success :: bool
  r_error :: "string option"
  r_tasks :: "json list option"
  r_authenticated :: "bool option"

definition successReply :: response where
  "successReply = \<lparr> r_success = True, r_error = None, r_tasks = None, r_authenticated = None \<rparr>"

definition failureReply :: "string \<Rightarrow> response" where
  "failureReply m = \<lparr> r_success = False, r_error = Some m, r_tasks = None, r_authenticated = None \<rparr>"

definition handleGetTasks :: "string option \<Rightarrow> fetchResult \<Rightarrow> world \<Rightarrow> response \<times> world" where
  "handleGetTasks grant fetched w =
     (case bg_getTasks grant fetched w of
        (Inr tasks, w1) \<Rightarrow> (successReply\<lparr>r_tasks := Some tasks\<rparr>, w1)
      | (Inl e, w1) \<Rightarrow> (failureReply (messageOf e), w1))"

definition bg_handleLogout :: "fetchResult \<Rightarrow> world \<Rightarrow> response \<times> world" where
  "bg_handleLogout revoked w =
     (case signOut revoked w of
        (Inr u, w1) \<Rightarrow> (successReply, w1)
      | (Inl e, w1) \<Rightarrow> (failureReply (messageOf e), w1))"

definition handleAuthenticate :: "string option \<Rightarrow> world \<Rightarrow> response \<times> world" where
  "handleAuthenticate grant w =
     (case getToken True grant w of
        (Inr (Some token), w1) \<Rightarrow> (successReply\<lparr>r_authenticated := Some True\<rparr>, w1)
      | (Inr None, w1) \<Rightarrow> (failureReply ''Authentication cancelled or failed'', w1)
      | (Inl e, w1) \<Rightarrow> (failureReply (messageOf e), w1))"

section \<open>sidepanel.js: the request helper\<close>

record payload =
  taskId :: string
  eventId :: string

text \<open>The \<open>switch\<close> of \<open>apiRequest\<close>: method and URL of an action, query
  parameters left out; \<open>None\<close> is the \<open>default\<close> branch.\<close>

definition apiRequest_route :: "string \<Rightarrow> payload \<Rightarrow> (string \<times> string) option" where
  "apiRequest_route action p =
     (if action = ''getTasks'' then
        Some (''GET'', ''https://www.googleapis.com/tasks/v1/lists/@default/tasks'')
      else if action = ''createTask'' then
        Some (''POST'', ''https://www.googleapis.com/tasks/v1/lists/@default/tasks'')
      else if action = ''updateTask'' then
        Some (''PATCH'', ''https://www.googleapis.com/tasks/v1/lists/@default/tasks/'' @ taskId p)
      else if action = ''deleteTask'' then
        Some (''DELETE'', ''https://www.googleapis.com/tasks/v1/lists/@default/tasks/'' @ taskId p)
      else if action = ''getEvents'' then
        Some (''GET'', ''https://www.googleapis.com/calendar/v3/calendars/primary/events'')
      else if action = ''createEvent'' then
        Some (''POST'', ''https://www.googleapis.com/calendar/v3/calendars/primary/events'')
      else if action = ''updateEvent'' then
        Some (''PATCH'', ''https://www.googleapis.com/calendar/v3/calendars/primary/events/'' @ eventId p)
      else None)"

text \<open>The message of the error thrown for a response that is not \<open>ok\<close>.\<close>

definition apiRequest_errorMessage :: "nat \<Rightarrow> string \<Rightarrow> string" where
  "apiRequest_errorMessage st txt =
     (if st = 401 then ''Your Google login has expired. Please log out and log back in.''
      else if st = 403 then ''Permission denied. Please check your Google permissions.''
      else if st = 404 then ''Resource not found. It may have been deleted.''
      else if st = 429 then ''Too many requests. Please wait a moment and try again.''
      else if st \<ge> 500 then ''Google services are temporarily unavailable. Please try again later.''
      else ''Request failed: '' @ toString st @ '' '' @ txt)"

definition apiRequest ::
  "string \<Rightarrow> payload \<Rightarrow> fetchResult \<Rightarrow> world \<Rightarrow> (error + json) \<times> world" where
  "apiRequest action p fetched w =
     (case chrome_identity_getAuthToken False None w of
        ((lastError, token), w1) \<Rightarrow>
          if lastError \<noteq> None \<or> \<not> (case token of Some t \<Rightarrow> truthy t | None \<Rightarrow> False) then
            (Inl (Error ''Authentication required. Please log in to Google.'' (Some ''AUTH_REQUIRED'') None), w1)
          else
            (case apiRequest_route action p of
               None \<Rightarrow> (Inl (Error (''Unknown action: '' @ action) None None), w1)
             | Some (method, url) \<Rightarrow>
                 (let w2 = logEffect (Fetch method url) w1
                  in case fetched of
                       NetworkFailure m \<Rightarrow> (Inl (TypeError m), w2)
                     | HttpResponse st txt body \<Rightarrow>
                         if \<not> ok st then
                           (Inl (Error (apiRequest_errorMessage st txt) None (Some st)), w2)
                         else if method = ''DELETE'' then (Inr (JObj [(''success'', JBool True)]), w2)
                         else (Inr body, w2))))"

section \<open>sidepanel.js: what the user sees\<close>

text \<open>Statements in sequence: what is thrown by the first skips the second.\<close>

definition andThen ::
  "(world \<Rightarrow> (error + unit) \<times> world) \<Rightarrow> (world \<Rightarrow> (error + unit) \<times> world)
     \<Rightarrow> world \<Rightarrow> (error + unit) \<times> world" where
  "andThen f g w = (case f w of (Inl e, w1) \<Rightarrow> (Inl e, w1) | (Inr u, w1) \<Rightarrow> g w1)"

definition quietly :: "(world \<Rightarrow> world) \<Rightarrow> world \<Rightarrow> (error + unit) \<times> world" where
  "quietly f w = (Inr (), f w)"

definition setTasksList :: "pane \<Rightarrow> world \<Rightarrow> world" where
  "setTasksList p w = w\<lparr>tasksList := map_option (\<lambda>old. p) (tasksList w)\<rparr>"

definition setEventsList :: "pane \<Rightarrow> world \<Rightarrow> world" where
  "setEventsList p w = w\<lparr>eventsList := map_option (\<lambda>old. p) (eventsList w)\<rparr>"

definition updateFooterAuthStatus :: "world \<Rightarrow> world" where
  "updateFooterAuthStatus w =
     w\<lparr>authStatusDot := map_option (\<lambda>old. isAuthenticated w) (authStatusDot w),
       authBtnLabel := map_option (\<lambda>old. if isAuthenticated w then ''Logout'' else ''Login'')
                         (authBtnLabel w)\<rparr>"

definition showLoginPrompt :: "world \<Rightarrow> world" where
  "showLoginPrompt w = setEventsList LoginPrompt (setTasksList LoginPrompt w)"

text \<open>\<open>showStatus\<close> writes to the status element without checking that it exists.\<close>

definition showStatus :: "string \<Rightarrow> string \<Rightarrow> world \<Rightarrow> (error + unit) \<times> world" where
  "showStatus msg type w =
     (case statusMessages w of
        None \<Rightarrow> (Inl (TypeError ''Cannot set properties of null (setting 'innerHTML')''), w)
      | Some old \<Rightarrow> (Inr (), w\<lparr>statusMessages := Some [(msg, type)]\<rparr>))"

definition showError :: "string \<Rightarrow> world \<Rightarrow> (error + unit) \<times> world" where
  "showError msg w = showStatus msg ''error'' w"

definition showEventsLoading :: "world \<Rightarrow> world" where
  "showEventsLoading w =
     (setEventsList LoadingMessage w)\<lparr>noEventsMessage := map_option (\<lambda>old. ''none'') (noEventsMessage w)\<rparr>"

definition showEventsError :: "string \<Rightarrow> world \<Rightarrow> world" where
  "showEventsError msg w =
     (setEventsList (ErrorMessage msg) w)\<lparr>noEventsMessage := map_option (\<lambda>old. ''none'') (noEventsMessage w)\<rparr>"

text \<open>\<open>renderTasks\<close> and \<open>renderEvents\<close> are abstracted to the collection they
  draw into their list element; they change no variable of the module.\<close>

definition renderTasks :: "world \<Rightarrow> world" where
  "renderTasks w = setTasksList (Rendered (currentTasks w)) w"

definition renderEvents :: "world \<Rightarrow> world" where
  "renderEvents w = setEventsList (Rendered (currentEvents w)) w"

section \<open>sidepanel.js: fetching tasks and events\<close>

text \<open>The test for an expired session, made on the text of the error.\<close>

definition isAuthFailure :: "string \<Rightarrow> bool" where
  "isAuthFailure errorMsg =
     (str_includes errorMsg ''Authentication required'' \<or> str_includes errorMsg ''401''
      \<or> str_includes errorMsg ''expired'')"

definition replyError :: "response option \<Rightarrow> string" where
  "replyError response =
     (case response of
        Some r \<Rightarrow> (case r_error r of
                     Some m \<Rightarrow> if truthy m then m else ''Unknown error''
                   | None \<Rightarrow> ''Unknown error'')
      | None \<Rightarrow> ''Unknown error'')"

text \<open>\<open>getTasks\<close> up to the point where the message to the background is sent.\<close>

definition getTasks :: "world \<Rightarrow> world" where
  "getTasks w =
     (if \<not> isAuthenticated w then showLoginPrompt w
      else logEffect (SendMessage ''getTasks'') (setTasksList LoadingMessage w))"

text \<open>The callback \<open>getTasks\<close> passes to \<open>sendMessage\<close>, run when the reply arrives:
  first its branch for a reply that is missing or not a success.\<close>

definition getTasks_failed :: "string \<Rightarrow> world \<Rightarrow> (error + unit) \<times> world" where
  "getTasks_failed errorMsg w =
     andThen
       (if isAuthFailure errorMsg then
          andThen (quietly (\<lambda>w. showLoginPrompt (updateFooterAuthStatus (w\<lparr>isAuthenticated := False\<rparr>))))
                  (showError ''Your Google login has expired. Please log in again.'')
        else if str_includes errorMsg ''403'' \<or> str_includes errorMsg ''forbidden'' then
          showError ''Permission denied. Please check your Google Tasks permissions.''
        else if str_includes errorMsg ''network'' \<or> str_includes errorMsg ''fetch'' then
          showError ''Could not connect to Google Tasks. Please check your internet connection.''
        else showError (''Could not load tasks: '' @ errorMsg))
       (quietly (setTasksList (ErrorMessage ''Failed to load tasks''))) w"

definition getTasks_callback :: "string option \<Rightarrow> response option \<Rightarrow> world \<Rightarrow> (error + unit) \<times> world" where
  "getTasks_callback lastError response w =
     (case lastError of
        Some e \<Rightarrow>
          andThen (showError ''Extension communication error. Please reload the extension.'')
                  (quietly (setTasksList (ErrorMessage ''Extension error''))) w
      | None \<Rightarrow>
          (case response of
             Some r \<Rightarrow>
               if r_success r then
                 quietly renderTasks
                   (w\<lparr>currentTasks := (case r_tasks r of Some ts \<Rightarrow> ts | None \<Rightarrow> [])\<rparr>)
               else getTasks_failed (replyError response) w
           | None \<Rightarrow> getTasks_failed (replyError response) w))"

text \<open>\<open>getEvents\<close> up to its \<open>await\<close>: the flag says whether \<open>apiRequest\<close> is called.\<close>

definition getEvents_begin :: "world \<Rightarrow> bool \<times> world" where
  "getEvents_begin w =
     (if \<not> isAuthenticated w then
        (False, showEventsError ''Please log in to Google to view your calendar events.'' w)
      else (True, showEventsLoading w))"

text \<open>\<open>getEvents\<close> after its \<open>await\<close>, given what \<open>apiRequest\<close> settled to. Whatever
  the \<open>try\<close> block throws lands in the \<open>catch\<close> block, which throws nothing.\<close>

definition getEvents_catch :: "error \<Rightarrow> world \<Rightarrow> world" where
  "getEvents_catch err w =
     (let errorMsg = (if truthy (messageOf err) then messageOf err else ''Unknown error'')
      in if isAuthFailure errorMsg then
           showEventsError ''Your Google login has expired. Please log in again.''
             (showLoginPrompt (updateFooterAuthStatus (w\<lparr>isAuthenticated := False\<rparr>)))
         else if str_includes errorMsg ''403'' \<or> str_includes errorMsg ''forbidden'' then
           showEventsError ''Permission denied. Please check your Google Calendar permissions.'' w
         else if str_includes errorMsg ''network'' \<or> str_includes errorMsg ''fetch'' then
           showEventsError ''Could not connect to Google Calendar. Please check your internet connection.'' w
         else showEventsError errorMsg w)"

definition getEvents_resume :: "error + json \<Rightarrow> world \<Rightarrow> (error + unit) \<times> world" where
  "getEvents_resume settled w =
     (case settled of
        Inl err \<Rightarrow> (Inr (), getEvents_catch err w)
      | Inr data \<Rightarrow>
          (case itemsOf data of
             Inl err \<Rightarrow> (Inr (), getEvents_catch err w)
           | Inr items \<Rightarrow> (Inr (), renderEvents (w\<lparr>currentEvents := items\<rparr>))))"

text \<open>The whole of \<open>getEvents\<close> when nothing else runs at its \<open>await\<close>.\<close>

definition getEvents :: "fetchResult \<Rightarrow> world \<Rightarrow> (error + unit) \<times> world" where
  "getEvents fetched w =
     (case getEvents_begin w of
        (False, w1) \<Rightarrow> (Inr (), w1)
      | (True, w1) \<Rightarrow>
          (case apiRequest ''getEvents'' \<lparr> taskId = [], eventId = [] \<rparr> fetched w1 of
             (settled, w2) \<Rightarrow> getEvents_resume settled w2))"

text \<open>The side panel's \<open>getTasks\<close> with the background's answer, when nothing else
  runs in between.\<close>

definition getTasks_roundtrip :: "string option \<Rightarrow> fetchResult \<Rightarrow> world \<Rightarrow> (error + unit) \<times> world" where
  "getTasks_roundtrip grant fetched w =
     (if \<not> isAuthenticated w then (Inr (), getTasks w)
      else case handleGetTasks grant fetched (getTasks w) of
             (reply, w1) \<Rightarrow> getTasks_callback None (Some reply) w1)"

section \<open>sidepanel.js: login and logout\<close>

definition handleLogout :: "world \<Rightarrow> (error + unit) \<times> world" where
  "handleLogout w =
     andThen (showStatus ''Logging out...'' ''info'') (quietly (logEffect (SendMessage ''logout''))) w"

definition handleLogout_callback :: "string option \<Rightarrow> response option \<Rightarrow> world \<Rightarrow> (error + unit) \<times> world" where
  "handleLogout_callback lastError response w =
     (case lastError of
        Some e \<Rightarrow> showError ''Extension communication error. Please reload the extension and try again.'' w
      | None \<Rightarrow>
          if (case response of Some r \<Rightarrow> r_success r | None \<Rightarrow> False) then
            andThen
              (quietly (\<lambda>w. setEventsList Blank (setTasksList Blank (showLoginPrompt
                 ((updateFooterAuthStatus (w\<lparr>isAuthenticated := False\<rparr>))
                    \<lparr>currentTasks := [], currentEvents := []\<rparr>)))))
              (showStatus ''Logged out successfully'' ''success'') w
          else showError ''Unable to logout from Google. Please try again.'' w)"

text \<open>\<open>showTab('todo')\<close>, as far as the modelled state goes: the lazy load of the
  To-Do tab calls \<open>getTasks\<close> when the tab's content element exists.\<close>

definition showTab_todo :: "world \<Rightarrow> world" where
  "showTab_todo w = (if todoContent w then getTasks w else w)"

definition handleLogin :: "world \<Rightarrow> (error + unit) \<times> world" where
  "handleLogin w =
     andThen (showStatus ''Logging in to Google...'' ''info'')
             (quietly (logEffect (SendMessage ''authenticate''))) w"

definition handleLogin_callback :: "string option \<Rightarrow> response option \<Rightarrow> world \<Rightarrow> (error + unit) \<times> world" where
  "handleLogin_callback lastError response w =
     (case lastError of
        Some e \<Rightarrow> showError ''Extension communication error. Please reload the extension and try again.'' w
      | None \<Rightarrow>
          if (case response of Some r \<Rightarrow> r_success r | None \<Rightarrow> False) then
            andThen (showStatus ''Login successful!'' ''success'')
              (quietly (\<lambda>w. showTab_todo (snd (getEvents_begin (getTasks
                 (updateFooterAuthStatus (w\<lparr>isAuthenticated := True\<rparr>))))))) w
          else
            (let errorMsg = replyError response
             in andThen
                  (if str_includes errorMsg ''User cancelled'' \<or> str_includes errorMsg ''canceled'' then
                     showStatus ''Login cancelled'' ''warning''
                   else if str_includes errorMsg ''network'' \<or> str_includes errorMsg ''fetch'' then
                     showError ''Could not connect to Google. Please check your internet connection.''
                   else showError ''Unable to login to Google. Please try again.'')
                  (quietly (\<lambda>w. updateFooterAuthStatus (w\<lparr>isAuthenticated := False\<rparr>))) w))"

text \<open>
  What can happen in a session, one event-loop turn each: a click on the footer's
  login/logout button, a refresh of either list, the background script serving a
  message, and the arrival of a reply with whatever it carries. An exception that
  escapes a turn is reported by the browser and the session goes on.
\<close>

datatype turn =
    ClickAuthToggle
  | RefreshTasks
  | RefreshEvents
  | BackgroundLogout fetchResult
  | BackgroundAuthenticate "string option"
  | BackgroundGetTasks "string option" fetchResult
  | LogoutReply "string option" "response option"
  | LoginReply "string option" "response option"
  | TasksReply "string option" "response option"
  | EventsSettled "error + json"

fun takeTurn :: "turn \<Rightarrow> world \<Rightarrow> world" where
  "takeTurn ClickAuthToggle w = snd ((if isAuthenticated w then handleLogout else handleLogin) w)"
| "takeTurn RefreshTasks w = getTasks w"
| "takeTurn RefreshEvents w = snd (getEvents_begin w)"
| "takeTurn (BackgroundLogout revoked) w = snd (bg_handleLogout revoked w)"
| "takeTurn (BackgroundAuthenticate grant) w = snd (handleAuthenticate grant w)"
| "takeTurn (BackgroundGetTasks grant fetched) w = snd (handleGetTasks grant fetched w)"
| "takeTurn (LogoutReply lastError response) w = snd (handleLogout_callback lastError response w)"
| "takeTurn (LoginReply lastError response) w = snd (handleLogin_callback lastError response w)"
| "takeTurn (TasksReply lastError response) w = snd (getTasks_callback lastError response w)"
| "takeTurn (EventsSettled settled) w = snd (getEvents_resume settled w)"

fun session :: "turn list \<Rightarrow> world \<Rightarrow> world" where
  "session [] w = w"
| "session (t # ts) w = session ts (takeTurn t w)"

section \<open>savetab.js: LinkHive, the flat list of saved links\<close>

definition linkToJson :: "savedLink \<Rightarrow> json" where
  "linkToJson it =
     JObj [(''id'', JStr (link_id it)), (''title'', JStr (link_title it)), (''url'', JStr (link_url it)),
           (''note'', JStr (link_note it)), (''group'', JStr (link_group it)),
           (''starred'', JBool (link_starred it))]"

text \<open>\<open>setSavedTabsArray\<close>: write the list under the canonical key, then remove the
  legacy key. The parameters are the outcomes of the two platform calls.\<close>

definition setSavedTabsArray ::
  "savedLink list \<Rightarrow> string option \<Rightarrow> string option \<Rightarrow> world \<Rightarrow> (error + unit) \<times> world" where
  "setSavedTabsArray arr setError removeError w =
     (case setError of
        Some e \<Rightarrow> (Inl (StorageError e), w)
      | None \<Rightarrow>
          (let w1 = w\<lparr>storageLocal :=
                      chrome_storage_set [(''linkHiveItems'', JArr (map linkToJson arr))] (storageLocal w)\<rparr>
           in case removeError of
                Some e \<Rightarrow> (Inl (StorageError e), w1)
              | None \<Rightarrow>
                  (Inr (), w1\<lparr>storageLocal := chrome_storage_remove [''savedTabs''] (storageLocal w1)\<rparr>)))"

text \<open>
  \<open>renderSavedTabs\<close> first groups the cache by \<open>(it.group || 'General').trim()\<close>.
  \<open>(acc[key] ||= []).push(it)\<close> throws when the key names a property every object
  inherits.
\<close>

definition groupKey :: "savedLink \<Rightarrow> string" where
  "groupKey it = trim (if truthy (link_group it) then link_group it else ''General'')"

fun groupLinks ::
  "(string \<times> savedLink list) list \<Rightarrow> savedLink list \<Rightarrow> error + (string \<times> savedLink list) list" where
  "groupLinks acc [] = Inr acc"
| "groupLinks acc (it # its) =
     (case getProperty acc (groupKey it) of
        Own items \<Rightarrow> groupLinks (AList.update (groupKey it) (items @ [it]) acc) its
      | Undefined \<Rightarrow> groupLinks (AList.update (groupKey it) [it] acc) its
      | Inherited \<Rightarrow> Inl (TypeError ''(acc[key] ||= []).push is not a function''))"

text \<open>
  \<open>Object.entries\<close> lists the keys that are array indices first, in ascending
  numeric order, and then the other keys in the order they were created. An array
  index is the decimal form, without leading zeros, of a number below
  \<open>2^32 - 1\<close>.
\<close>

definition isDigit :: "char \<Rightarrow> bool" where
  "isDigit c = (48 \<le> (of_char c :: nat) \<and> (of_char c :: nat) \<le> 57)"

definition digitsValue :: "string \<Rightarrow> int" where
  "digitsValue s = foldl (\<lambda>n c. 10 * n + (of_char c - 48)) 0 s"

definition arrayIndex :: "string \<Rightarrow> int option" where
  "arrayIndex s =
     (case s of
        [] \<Rightarrow> None
      | c # cs \<Rightarrow>
          if list_all isDigit s \<and> (cs = [] \<or> c \<noteq> CHR ''0'') \<and> digitsValue s < 4294967295
          then Some (digitsValue s) else None)"

definition objectEntries :: "(string \<times> 'a) list \<Rightarrow> (string \<times> 'a) list" where
  "objectEntries obj =
     sort_key (\<lambda>kv. case arrayIndex (fst kv) of Some n \<Rightarrow> n | None \<Rightarrow> 0)
       (filter (\<lambda>kv. arrayIndex (fst kv) \<noteq> None) obj)
     @ filter (\<lambda>kv. arrayIndex (fst kv) = None) obj"

text \<open>Within a group the starred links come first, the order being kept otherwise
  (the sort is stable).\<close>

definition starredFirst :: "savedLink list \<Rightarrow> savedLink list" where
  "starredFirst items = filter link_starred items @ filter (\<lambda>it. \<not> link_starred it) items"

text \<open>
  \<open>createTabElement\<close> and \<open>createGroupElement\<close> splice the title and the URL of a
  link, and the name of a group, into markup as they are, hand the markup to the
  browser through \<open>innerHTML\<close>, and then look their buttons up in what the parser
  made of it. A button that is not found is \<open>null\<close>, and adding a listener to it
  throws. The parser belongs to the browser: what it finds is a parameter, which
  says of the markup of a card or of a group header whether \<open>querySelector\<close> finds
  an element for a selector.
\<close>

datatype markup =
    TabMarkup string string bool
  | GroupHeaderMarkup string nat

type_synonym htmlParser = "markup \<Rightarrow> string \<Rightarrow> bool"

definition nullListener :: error where
  "nullListener = TypeError ''Cannot read properties of null (reading 'addEventListener')''"

definition createTabElement :: "htmlParser \<Rightarrow> savedLink \<Rightarrow> error + savedLink" where
  "createTabElement found tab =
     (let html = TabMarkup (link_title tab) (link_url tab) (link_starred tab)
      in if \<not> found html ''.saved-tab-content'' then Inl nullListener
         else if \<not> found html ''.edit-btn'' then Inl nullListener
         else if \<not> found html ''.delete-btn'' then Inl nullListener
         else if \<not> found html ''.star-btn'' then Inl nullListener
         else Inr tab)"

text \<open>The parser finds every button of the card of a link, and the toggle of the
  header of a group with a number of links.\<close>

definition buttonsFound :: "htmlParser \<Rightarrow> savedLink \<Rightarrow> bool" where
  "buttonsFound found tab =
     (found (TabMarkup (link_title tab) (link_url tab) (link_starred tab)) ''.saved-tab-content''
      \<and> found (TabMarkup (link_title tab) (link_url tab) (link_starred tab)) ''.edit-btn''
      \<and> found (TabMarkup (link_title tab) (link_url tab) (link_starred tab)) ''.delete-btn''
      \<and> found (TabMarkup (link_title tab) (link_url tab) (link_starred tab)) ''.star-btn'')"

definition toggleFound :: "htmlParser \<Rightarrow> string \<Rightarrow> nat \<Rightarrow> bool" where
  "toggleFound found groupName n = found (GroupHeaderMarkup groupName n) ''.group-toggle-btn''"

text \<open>\<open>tabs.forEach\<close>: the first card that throws ends the loop.\<close>

fun createTabElements :: "htmlParser \<Rightarrow> savedLink list \<Rightarrow> error + savedLink list" where
  "createTabElements found [] = Inr []"
| "createTabElements found (tab # tabs) =
     (case createTabElement found tab of
        Inl e \<Rightarrow> Inl e
      | Inr tabEl \<Rightarrow>
          (case createTabElements found tabs of
             Inl e \<Rightarrow> Inl e
           | Inr tabEls \<Rightarrow> Inr (tabEl # tabEls)))"

definition createGroupElement ::
  "htmlParser \<Rightarrow> string \<Rightarrow> savedLink list \<Rightarrow> error + string \<times> savedLink list" where
  "createGroupElement found groupName tabs =
     (case createTabElements found tabs of
        Inl e \<Rightarrow> Inl e
      | Inr tabEls \<Rightarrow>
          if \<not> found (GroupHeaderMarkup groupName (length tabs)) ''.group-toggle-btn''
          then Inl nullListener
          else Inr (groupName, tabEls))"

text \<open>The loop over the entries: each group is sorted, built and appended to the
  list element; a group that throws leaves the groups before it in the list.\<close>

fun drawGroups ::
  "htmlParser \<Rightarrow> (string \<times> savedLink list) list \<Rightarrow> world \<Rightarrow> (error + unit) \<times> world" where
  "drawGroups found [] w = (Inr (), w)"
| "drawGroups found ((groupName, items) # rest) w =
     (case createGroupElement found groupName (starredFirst items) of
        Inl e \<Rightarrow> (Inl e, w)
      | Inr groupEl \<Rightarrow>
          drawGroups found rest
            (w\<lparr>savedTabsList := map_option (\<lambda>shown. shown @ [groupEl]) (savedTabsList w)\<rparr>))"

definition renderSavedTabs :: "htmlParser \<Rightarrow> world \<Rightarrow> (error + unit) \<times> world" where
  "renderSavedTabs found w =
     (case savedTabsList w of
        None \<Rightarrow> (Inr (), w)
      | Some old \<Rightarrow>
          (case groupLinks [] (savedTabsCache w) of
             Inl e \<Rightarrow> (Inl e, w\<lparr>savedTabsList := Some []\<rparr>)
           | Inr grouped \<Rightarrow>
               drawGroups found (objectEntries grouped) (w\<lparr>savedTabsList := Some []\<rparr>)))"

text \<open>\<open>createGroup\<close> of sidepanel.js appends an empty group to the list element and
  reports it.\<close>

definition createGroup :: "string \<Rightarrow> world \<Rightarrow> (error + unit) \<times> world" where
  "createGroup name w =
     (if \<not> truthy name \<or> \<not> truthy (trim name) then showError ''Group name cannot be empty'' w
      else case savedTabsList w of
             None \<Rightarrow> (Inr (), w)
           | Some shown \<Rightarrow>
               showStatus (''Group '' @ [CHR 0x22] @ name @ [CHR 0x22] @ '' created'') ''success''
                 (w\<lparr>savedTabsList := Some (shown @ [(name, [])])\<rparr>))"

record formData =
  fd_id :: "string option"
  fd_title :: string
  fd_note :: string
  fd_url :: string
  fd_group :: string

text \<open>\<open>findIndex\<close> and the assignment at the index found.\<close>

fun findIndex :: "('a \<Rightarrow> bool) \<Rightarrow> 'a list \<Rightarrow> nat option" where
  "findIndex P [] = None"
| "findIndex P (x # xs) = (if P x then Some 0 else map_option Suc (findIndex P xs))"

text \<open>\<open>saveOrUpdateSavedTab\<close>: an update overwrites the fields of the form in the
  link with the same id and keeps its star; otherwise a new, unstarred link with a
  fresh id (the parameter \<open>freshId\<close>, for \<open>crypto.randomUUID()\<close>) is pushed. The
  cache is changed before anything is written. The manager that renders exists,
  since it is the one whose form was submitted; the reset of the form's fields at
  the end is not part of the modelled state.\<close>

definition saveOrUpdateSavedTab ::
  "formData \<Rightarrow> string \<Rightarrow> string option \<Rightarrow> string option \<Rightarrow> htmlParser \<Rightarrow> world
     \<Rightarrow> (error + unit) \<times> world" where
  "saveOrUpdateSavedTab fd freshId setError removeError found w =
     (let cache = savedTabsCache w;
          cache1 =
            (case fd_id fd of
               Some i \<Rightarrow>
                 (case findIndex (\<lambda>it. link_id it = i) cache of
                    Some idx \<Rightarrow>
                      cache[idx := (cache ! idx)\<lparr>link_id := i, link_title := fd_title fd,
                                     link_note := fd_note fd, link_url := fd_url fd,
                                     link_group := fd_group fd\<rparr>]
                  | None \<Rightarrow> cache)
             | None \<Rightarrow>
                 cache @ [\<lparr> link_id = freshId, link_title = fd_title fd, link_url = fd_url fd,
                            link_note = fd_note fd, link_group = fd_group fd, link_starred = False \<rparr>])
      in andThen (setSavedTabsArray cache1 setError removeError) (renderSavedTabs found)
           (w\<lparr>savedTabsCache := cache1\<rparr>))"

text \<open>The fields of the form as \<open>handleSaveTabFormSubmit\<close> reads them; the hidden field
  with the id of the link being edited may be missing from the page.\<close>

record saveTabForm =
  editing_savedtab_id :: "string option"
  saved_tab_title :: string
  saved_tab_note :: string
  saved_tab_url :: string
  saved_tab_group :: string

definition handleSaveTabFormSubmit ::
  "saveTabForm \<Rightarrow> string \<Rightarrow> string option \<Rightarrow> string option \<Rightarrow> htmlParser \<Rightarrow> world
     \<Rightarrow> (error + unit) \<times> world" where
  "handleSaveTabFormSubmit form freshId setError removeError found w =
     (let editingId = (case editing_savedtab_id form of Some v \<Rightarrow> trim v | None \<Rightarrow> []);
          title = trim (saved_tab_title form);
          note = trim (saved_tab_note form);
          url = trim (saved_tab_url form);
          group = saved_tab_group form
      in if \<not> truthy title then showError ''Title is required'' w
         else if \<not> truthy url then showError ''URL is required'' w
         else
           (let group1 = (if \<not> truthy group then ''General'' else group);
                fd = \<lparr> fd_id = (if truthy editingId then Some editingId else None),
                       fd_title = title, fd_note = note, fd_url = url, fd_group = group1 \<rparr>
            in case createGroup group1 w of
                 (Inl e, w1) \<Rightarrow> (Inl e, w1)
               | (Inr u, w1) \<Rightarrow>
                   (case andThen (saveOrUpdateSavedTab fd freshId setError removeError found)
                              (showStatus (if truthy editingId then ''Link updated'' else ''Link saved'')
                                 ''success'') w1 of
                      (Inl e, w2) \<Rightarrow> showError (''Failed to save tab: '' @ messageOf e) w2
                    | (Inr u, w2) \<Rightarrow> (Inr (), w2))))"

text \<open>What lives on the device only: the starred task ids, the two storage areas
  (saved links are kept in the local one) and the cache of saved links.\<close>

definition localData :: "world \<Rightarrow> string set \<times> json storage_area \<times> json storage_area \<times> savedLink list" where
  "localData w = (starredTasks w, storageLocal w, storageSync w, savedTabsCache w)"

section \<open>The error taxonomy\<close>

text \<open>
  The kinds of error the specification names (its section 7). The code has no such
  type: \<open>apiRequest\<close> tells its errors apart by the message, the \<open>code\<close> and the
  \<open>status\<close> they carry, and \<open>kindOfError\<close> reads an error of \<open>apiRequest\<close> in those
  terms.
\<close>

datatype errorKind =
    AuthRequired | AuthExpired | PermissionDenied | NotFound | RateLimited
  | ProviderUnavailable | RequestFailed nat

definition kindOfError :: "error \<Rightarrow> errorKind option" where
  "kindOfError e =
     (if codeOf e = Some ''AUTH_REQUIRED'' then Some AuthRequired
      else if messageOf e = ''Your Google login has expired. Please log out and log back in.'' then Some AuthExpired
      else if messageOf e = ''Permission denied. Please check your Google permissions.'' then Some PermissionDenied
      else if messageOf e = ''Resource not found. It may have been deleted.'' then Some NotFound
      else if messageOf e = ''Too many requests. Please wait a moment and try again.'' then Some RateLimited
      else if messageOf e = ''Google services are temporarily unavailable. Please try again later.'' then Some ProviderUnavailable
      else if startsWith (messageOf e) ''Request failed: '' then map_option RequestFailed (statusOf e)
      else None)"

text \<open>
  The mapping from status to kind in the specification's words (its section 4.2),
  where 5xx is a status from 500 to 599; to be compared with what the code does.
\<close>

definition spec_statusKind :: "nat \<Rightarrow> errorKind" where
  "spec_statusKind st =
     (if st = 401 then AuthExpired
      else if st = 403 then PermissionDenied
      else if st = 404 then NotFound
      else if st = 429 then RateLimited
      else if 500 \<le> st \<and> st \<le> 599 then ProviderUnavailable
      else RequestFailed st)"

text \<open>A logged-in session, for the examples.\<close>

definition loggedInWorld :: world where
  "loggedInWorld =
     \<lparr> isAuthenticated = True,
       currentTasks = [JObj [(''id'', JStr ''t1''), (''title'', JStr ''Write report'')]],
       currentEvents = [JObj [(''id'', JStr ''e1''), (''summary'', JStr ''Review'')]],
       starredTasks = {''t1''},
       savedTabsCache = [],
       tasksList = Some Blank,
       eventsList = Some Blank,
       noEventsMessage = Some ''none'',
       authStatusDot = Some True,
       authBtnLabel = Some ''Logout'',
       statusMessages = Some [],
       todoContent = True,
       savedTabsList = Some [],
       cachedToken = Some ''ya29.token'',
       storageLocal = [(''starredTasks'', JArr [JStr ''t1''])],
       storageSync = [],
       trace = [] \<rparr>"

section \<open>Properties of the key-value store and of the grouped store\<close>

lemma list_all_update:
  "list_all P al \<Longrightarrow> P (k, v) \<Longrightarrow> list_all P (AList.update k v al)"
  by (induction al) auto

lemma list_all_delete:
  "list_all P al \<Longrightarrow> list_all P (AList.delete k al)"
  by (simp add: AList.delete_eq list_all_iff)

lemma list_all_restrict:
  "list_all P al \<Longrightarrow> list_all P (AList.restrict A al)"
  by (simp add: AList.restrict_eq list_all_iff)

lemma map_of_list_all:
  "list_all P al \<Longrightarrow> map_of al k = Some v \<Longrightarrow> P (k, v)"
  by (auto simp: list_all_iff dest: map_of_SomeD)

lemma getSavedTabs_noEmptyGroup:
  "storeNoEmptyGroup area \<Longrightarrow> noEmptyGroup (getSavedTabs e area)"
  unfolding getSavedTabs_def getStorageData_def chrome_storage_get_def storeNoEmptyGroup_def
  by (auto simp: noEmptyGroup_def split: option.splits
           dest!: map_of_list_all[rotated] dest: list_all_restrict)

lemma store_set_noEmptyGroup:
  "storeNoEmptyGroup area \<Longrightarrow> noEmptyGroup tabs \<Longrightarrow>
   storeNoEmptyGroup (snd (setStorageData [(SAVED_TABS, tabs)] e area))"
  unfolding setStorageData_def chrome_storage_set_def storeNoEmptyGroup_def
  by (auto split: option.splits intro: list_all_update)

lemma store_set_noEmptyGroup_eq:
  "setStorageData [(SAVED_TABS, tabs)] e area = (r, area') \<Longrightarrow>
   storeNoEmptyGroup area \<Longrightarrow> noEmptyGroup tabs \<Longrightarrow> storeNoEmptyGroup area'"
  using store_set_noEmptyGroup [of area tabs e] by simp

lemma saveTab_noEmptyGroup:
  assumes "storeNoEmptyGroup area"
  shows "storeNoEmptyGroup (snd (saveTab d c ge se area))"
proof -
  let ?tabs = "getSavedTabs ge area"
  have tabs: "noEmptyGroup ?tabs"
    using assms by (rule getSavedTabs_noEmptyGroup)
  have created: "noEmptyGroup (AList.update g (ts @ [e]) (AList.update g [] ?tabs))" for g ts e
    using tabs by (simp add: noEmptyGroup_def list_all_update)
  have existing: "noEmptyGroup (AList.update g (ts @ [e]) ?tabs)" for g ts e
    using tabs by (simp add: noEmptyGroup_def list_all_update)
  show ?thesis
    unfolding saveTab_def Let_def
    using assms created existing
    by (auto split: option.splits property.splits prod.splits sum.splits
             elim: store_set_noEmptyGroup_eq)
qed

lemma deleteSavedTab_noEmptyGroup:
  assumes "storeNoEmptyGroup area"
  shows "storeNoEmptyGroup (snd (deleteSavedTab g i ge se area))"
proof -
  let ?tabs = "getSavedTabs ge area"
  have tabs: "noEmptyGroup ?tabs"
    using assms by (rule getSavedTabs_noEmptyGroup)
  have emptied: "noEmptyGroup (AList.delete g (AList.update g ts ?tabs))" for ts
    using tabs by (simp add: noEmptyGroup_def AList.delete_update_same list_all_delete)
  have kept: "ts \<noteq> [] \<Longrightarrow> noEmptyGroup (AList.update g ts ?tabs)" for ts
    using tabs by (simp add: noEmptyGroup_def list_all_update)
  show ?thesis
    unfolding deleteSavedTab_def Let_def
    using assms emptied kept
    by (auto split: property.splits intro!: store_set_noEmptyGroup)
qed

lemma clearAllSavedTabs_noEmptyGroup:
  "storeNoEmptyGroup area \<Longrightarrow> storeNoEmptyGroup (snd (clearAllSavedTabs e area))"
  unfolding clearAllSavedTabs_def removeStorageData_def chrome_storage_remove_def
    storeNoEmptyGroup_def
  by (auto split: option.splits intro: list_all_restrict)

lemma applyOp_noEmptyGroup:
  "storeNoEmptyGroup area \<Longrightarrow> storeNoEmptyGroup (applyOp op area)"
  by (cases op)
     (simp_all add: saveTab_noEmptyGroup deleteSavedTab_noEmptyGroup clearAllSavedTabs_noEmptyGroup)

text \<open>
  C9. Writing \<open>{k: v}\<close> with \<open>setStorageData\<close> and then reading \<open>k\<close> with
  \<open>getStorageData\<close>, on a store whose calls report no error, succeeds both times
  and the mapping read has \<open>v\<close> at \<open>k\<close>, for every JSON value \<open>v\<close>, every key
  and every prior content of the store.
\<close>

theorem storage_round_trip:
  fixes v :: json
  shows "fst (setStorageData [(k, v)] None area) = Inr () \<and>
         (\<exists>result. getStorageData [k] None (snd (setStorageData [(k, v)] None area)) = Inr result
                    \<and> map_of result k = Some v)"
  by (simp add: setStorageData_def getStorageData_def chrome_storage_get_def chrome_storage_set_def
                AList.restr_conv' AList.update_conv')

text \<open>
  C10. In the grouped saved-tabs store no group maps to the empty list: if that
  holds of a store, it holds after any history of \<open>saveTab\<close>, \<open>deleteSavedTab\<close> and
  \<open>clearAllSavedTabs\<close> calls, whatever their arguments and whether or not their
  storage calls fail. It holds of the store that has no \<open>savedTabs\<close> key yet.
\<close>

theorem grouped_store_no_empty_group:
  "storeNoEmptyGroup area \<Longrightarrow> storeNoEmptyGroup (applyOps ops area)"
  by (induction ops arbitrary: area) (simp_all add: applyOp_noEmptyGroup)

theorem grouped_store_no_empty_group_witness:
  "storeNoEmptyGroup
     (applyOps
        [SaveTab \<lparr> td_title = Some ''Docs'', td_url = Some ''https://a.example'', td_note = None,
                    td_group = ''Work'' \<rparr> \<lparr> now_ms = 17, now_iso = ''2025-10-04T00:00:00.000Z'' \<rparr> None None,
         DeleteSavedTab ''Work'' ''17'' None None]
        [])
   \<and> applyOps
        [SaveTab \<lparr> td_title = Some ''Docs'', td_url = Some ''https://a.example'', td_note = None,
                    td_group = ''Work'' \<rparr> \<lparr> now_ms = 17, now_iso = ''2025-10-04T00:00:00.000Z'' \<rparr> None None,
         DeleteSavedTab ''Work'' ''17'' None None]
        [] = [(''savedTabs'', [])]"
  (is "storeNoEmptyGroup (applyOps ?ops []) \<and> _")
proof -
  have start: "storeNoEmptyGroup []"
    by (simp add: storeNoEmptyGroup_def)
  have kept: "storeNoEmptyGroup (applyOps ?ops [])"
    by (rule grouped_store_no_empty_group [OF start])
  have run: "applyOps ?ops [] = [(''savedTabs'', [])]"
    by code_simp
  show ?thesis
    by (rule conjI [OF kept run])
qed

section \<open>Properties of the credential broker and of the request helper\<close>

lemma startsWith_append: "startsWith (sub @ b) sub"
  by (induction sub) simp_all

lemma str_includes_startsWith: "startsWith s sub \<Longrightarrow> str_includes s sub"
  by (cases s; cases sub) simp_all

lemma str_includes_append: "str_includes s sub \<Longrightarrow> str_includes (a @ s) sub"
  by (induction a) simp_all

lemma kind_of_status_error:
  "kindOfError (Error (apiRequest_errorMessage st txt) None (Some st)) =
     Some (if st = 401 then AuthExpired
           else if st = 403 then PermissionDenied
           else if st = 404 then NotFound
           else if st = 429 then RateLimited
           else if 500 \<le> st then ProviderUnavailable
           else RequestFailed st)"
  unfolding kindOfError_def apiRequest_errorMessage_def
  using startsWith_append [of "''Request failed: ''" "toString st @ '' '' @ txt"]
  by simp

text \<open>
  C8. \<open>getToken\<close> never rejects: whatever the platform hands its callback, the
  promise resolves; when the platform reports an error, or hands over no token or
  an empty one, it resolves to none. On the modelled platform: with no cached token,
  a non-interactive call and an interactive call the user dismisses resolve to none.
\<close>

theorem getToken_never_rejects:
  "(\<exists>r. getToken_callback lastError token = Inr r)
   \<and> (lastError \<noteq> None \<or> token = None \<or> token = Some [] \<longrightarrow> getToken_callback lastError token = Inr None)
   \<and> (\<exists>r. fst (getToken interactive grant w) = Inr r)
   \<and> (cachedToken w = None \<and> (\<not> interactive \<or> grant = None) \<longrightarrow>
        fst (getToken interactive grant w) = Inr None)"
  by (auto simp: getToken_def getToken_callback_def chrome_identity_getAuthToken_def logEffect_def
        truthy_def Let_def split: option.splits)

theorem getToken_never_rejects_witness:
  "getToken_callback (Some ''The user did not approve access.'') None = Inr None
   \<and> fst (getToken True None (loggedInWorld\<lparr>cachedToken := None\<rparr>)) = Inr None"
  using getToken_never_rejects [of "Some ''The user did not approve access.''" None True None
      "loggedInWorld\<lparr>cachedToken := None\<rparr>"]
  by simp

text \<open>
  C3, as amended. \<open>apiRequest\<close> asks for the credential without prompting before
  anything else, and with no credential it fails with \<open>AUTH_REQUIRED\<close> and has made
  no network call. The background's \<open>getTasks\<close> asks for it interactively; when the
  prompt yields no credential either, it throws \<open>Authentication required\<close> and has
  made no network call.
\<close>

theorem credential_before_request:
  "(\<exists>rest. trace (snd (apiRequest action p fetched w)) = trace w @ GetAuthToken False # rest)
   \<and> (cachedToken w = None \<or> cachedToken w = Some [] \<longrightarrow>
        apiRequest action p fetched w =
          (Inl (Error ''Authentication required. Please log in to Google.'' (Some ''AUTH_REQUIRED'') None),
           logEffect (GetAuthToken False) w))
   \<and> (\<exists>rest. trace (snd (bg_getTasks grant fetched w)) = trace w @ GetAuthToken True # rest)
   \<and> ((cachedToken w = None \<and> (grant = None \<or> grant = Some [])) \<or> cachedToken w = Some [] \<longrightarrow>
        fst (bg_getTasks grant fetched w) = Inl (Error ''Authentication required'' None None)
        \<and> trace (snd (bg_getTasks grant fetched w)) = trace w @ [GetAuthToken True])"
  by (auto simp: apiRequest_def bg_getTasks_def getToken_def getToken_callback_def
        chrome_identity_getAuthToken_def logEffect_def truthy_def Let_def
        split: option.splits fetchResult.splits prod.splits sum.splits)

theorem credential_before_request_witness:
  "apiRequest ''getEvents'' \<lparr> taskId = [], eventId = [] \<rparr> (HttpResponse 200 ''OK'' JNull)
     (loggedInWorld\<lparr>cachedToken := None\<rparr>) =
     (Inl (Error ''Authentication required. Please log in to Google.'' (Some ''AUTH_REQUIRED'') None),
      logEffect (GetAuthToken False) (loggedInWorld\<lparr>cachedToken := None\<rparr>))
   \<and> fst (bg_getTasks None (HttpResponse 200 ''OK'' JNull) (loggedInWorld\<lparr>cachedToken := None\<rparr>)) =
       Inl (Error ''Authentication required'' None None)
   \<and> trace (snd (bg_getTasks None (HttpResponse 200 ''OK'' JNull) (loggedInWorld\<lparr>cachedToken := None\<rparr>)))
       = trace (loggedInWorld\<lparr>cachedToken := None\<rparr>) @ [GetAuthToken True]"
  using credential_before_request [of "''getEvents''" "\<lparr> taskId = [], eventId = [] \<rparr>"
      "HttpResponse 200 ''OK'' JNull" "loggedInWorld\<lparr>cachedToken := None\<rparr>" None]
  by simp

text \<open>
  C3 as stated fails: with nothing in the token cache, the background's \<open>getTasks\<close>
  prompts the user, and once the user grants a token the request goes to the network
  and succeeds.
\<close>

theorem credential_before_request_counterexample:
  "cachedToken (loggedInWorld\<lparr>cachedToken := None\<rparr>) = None
   \<and> bg_getTasks (Some ''ya29.fresh'') (HttpResponse 200 ''OK'' (JObj [(''items'', JArr [])]))
        (loggedInWorld\<lparr>cachedToken := None\<rparr>)
      = (Inr [],
         loggedInWorld\<lparr>cachedToken := Some ''ya29.fresh'',
           trace := [GetAuthToken True,
                     Fetch ''GET'' ''https://www.googleapis.com/tasks/v1/lists/@default/tasks'']\<rparr>)"
  by code_simp

text \<open>
  C7. When \<open>apiRequest\<close> gets a response that is not \<open>ok\<close>, with one of the statuses
  of HTTP (three digits, so 599 at most), its error carries the status and is, by
  status: 401 expired login, 403 permission denied, 404 not found, 429 rate
  limited, 5xx provider unavailable, and request failed with that status for any
  other status. This is the specification's mapping.
\<close>

theorem status_to_error:
  assumes "cachedToken w = Some t" and "truthy t"
    and "apiRequest_route action p \<noteq> None" and "\<not> ok st" and "st \<le> 599"
  shows "\<exists>e. fst (apiRequest action p (HttpResponse st txt body) w) = Inl e
             \<and> statusOf e = Some st
             \<and> kindOfError e =
                 Some (if st = 401 then AuthExpired
                       else if st = 403 then PermissionDenied
                       else if st = 404 then NotFound
                       else if st = 429 then RateLimited
                       else if 500 \<le> st \<and> st \<le> 599 then ProviderUnavailable
                       else RequestFailed st)
             \<and> kindOfError e = Some (spec_statusKind st)"
proof -
  obtain verb address where route: "apiRequest_route action p = Some (verb, address)"
    using assms(3) by auto
  have "fst (apiRequest action p (HttpResponse st txt body) w)
          = Inl (Error (apiRequest_errorMessage st txt) None (Some st))"
    using assms(1,2,4) route
    by (simp add: apiRequest_def chrome_identity_getAuthToken_def logEffect_def Let_def)
  then show ?thesis
    using assms(5) by (simp add: kind_of_status_error spec_statusKind_def)
qed

theorem status_to_error_witness:
  "\<exists>e. fst (apiRequest ''getEvents'' \<lparr> taskId = [], eventId = [] \<rparr>
              (HttpResponse 404 ''Not Found'' JNull) loggedInWorld) = Inl e
       \<and> statusOf e = Some 404 \<and> kindOfError e = Some NotFound
       \<and> kindOfError e = Some (spec_statusKind 404)"
  using status_to_error [of loggedInWorld "''ya29.token''" "''getEvents''"
      "\<lparr> taskId = [], eventId = [] \<rparr>" 404 "''Not Found''" JNull]
  by (simp add: loggedInWorld_def truthy_def apiRequest_route_def ok_def spec_statusKind_def)

section \<open>Properties of an expired session\<close>

lemma toString_401: "toString 401 = ''401''"
  by code_simp

lemma tasks_401_is_auth_failure:
  "isAuthFailure (''Tasks API error: '' @ toString 401 @ '' '' @ txt)"
proof -
  have "str_includes (''401'' @ '' '' @ txt) ''401''"
    by (rule str_includes_startsWith [OF startsWith_append])
  then have "str_includes (''Tasks API error: '' @ ''401'' @ '' '' @ txt) ''401''"
    by (rule str_includes_append)
  then show ?thesis
    by (simp add: isAuthFailure_def toString_401)
qed

lemma events_401_is_auth_failure:
  "isAuthFailure (apiRequest_errorMessage 401 txt)"
  unfolding isAuthFailure_def apiRequest_errorMessage_def
  by (simp add: str_includes_append [of "''expired. Please log out and log back in.''" "''expired''" "''Your Google login has ''", simplified])

lemma handleGetTasks_401:
  assumes "cachedToken w = Some t" and "truthy t"
  shows "handleGetTasks grant (HttpResponse 401 txt body) w =
           (failureReply (''Tasks API error: '' @ toString 401 @ '' '' @ txt),
            w\<lparr>trace := trace w @ [GetAuthToken True,
                 Fetch ''GET'' ''https://www.googleapis.com/tasks/v1/lists/@default/tasks'']\<rparr>)"
  using assms
  by (simp add: handleGetTasks_def bg_getTasks_def getToken_def getToken_callback_def
        chrome_identity_getAuthToken_def logEffect_def ok_def Let_def)

lemma getTasks_failed_auth:
  assumes "isAuthFailure m"
  shows "getTasks_failed m w =
     (case statusMessages w of
        None \<Rightarrow> (Inl (TypeError ''Cannot set properties of null (setting 'innerHTML')''),
                  showLoginPrompt (updateFooterAuthStatus (w\<lparr>isAuthenticated := False\<rparr>)))
      | Some old \<Rightarrow>
          (Inr (), setTasksList (ErrorMessage ''Failed to load tasks'')
             ((showLoginPrompt (updateFooterAuthStatus (w\<lparr>isAuthenticated := False\<rparr>)))
                \<lparr>statusMessages := Some [(''Your Google login has expired. Please log in again.'', ''error'')]\<rparr>)))"
  using assms
  by (simp add: getTasks_failed_def andThen_def quietly_def showError_def showStatus_def
        showLoginPrompt_def updateFooterAuthStatus_def setTasksList_def setEventsList_def
        split: option.splits)

lemma getTasks_callback_failureReply:
  "truthy m \<Longrightarrow> getTasks_callback None (Some (failureReply m)) w = getTasks_failed m w"
  by (simp add: getTasks_callback_def replyError_def failureReply_def)

lemma getTasks_roundtrip_401:
  assumes "isAuthenticated w" and "cachedToken w = Some t" and "truthy t"
  shows "getTasks_roundtrip grant (HttpResponse 401 txt body) w =
           getTasks_failed (''Tasks API error: '' @ toString 401 @ '' '' @ txt)
             ((setTasksList LoadingMessage w)\<lparr>trace := trace w @ [SendMessage ''getTasks'', GetAuthToken True,
                 Fetch ''GET'' ''https://www.googleapis.com/tasks/v1/lists/@default/tasks'']\<rparr>)"
proof -
  have sent: "getTasks w = (setTasksList LoadingMessage w)\<lparr>trace := trace w @ [SendMessage ''getTasks'']\<rparr>"
    using assms(1) by (simp add: getTasks_def logEffect_def setTasksList_def)
  have tok: "cachedToken (getTasks w) = Some t"
    using assms(2) by (simp add: sent setTasksList_def)
  have msg: "truthy (''Tasks API error: '' @ toString 401 @ '' '' @ txt)"
    by (simp add: truthy_def)
  have served: "handleGetTasks grant (HttpResponse 401 txt body) (getTasks w) =
      (failureReply (''Tasks API error: '' @ toString 401 @ '' '' @ txt),
       (setTasksList LoadingMessage w)\<lparr>trace := trace w @ [SendMessage ''getTasks'', GetAuthToken True,
            Fetch ''GET'' ''https://www.googleapis.com/tasks/v1/lists/@default/tasks'']\<rparr>)"
    unfolding handleGetTasks_401 [OF tok assms(3)] by (simp add: sent)
  have "getTasks_roundtrip grant (HttpResponse 401 txt body) w =
      getTasks_callback None (Some (failureReply (''Tasks API error: '' @ toString 401 @ '' '' @ txt)))
        ((setTasksList LoadingMessage w)\<lparr>trace := trace w @ [SendMessage ''getTasks'', GetAuthToken True,
            Fetch ''GET'' ''https://www.googleapis.com/tasks/v1/lists/@default/tasks'']\<rparr>)"
    unfolding getTasks_roundtrip_def served using assms(1) by simp
  also have "\<dots> = getTasks_failed (''Tasks API error: '' @ toString 401 @ '' '' @ txt)
        ((setTasksList LoadingMessage w)\<lparr>trace := trace w @ [SendMessage ''getTasks'', GetAuthToken True,
            Fetch ''GET'' ''https://www.googleapis.com/tasks/v1/lists/@default/tasks'']\<rparr>)"
    by (rule getTasks_callback_failureReply [OF msg])
  finally show ?thesis .
qed

lemma getEvents_401:
  assumes "isAuthenticated w" and "cachedToken w = Some t" and "truthy t"
  shows "getEvents (HttpResponse 401 txt body) w =
           (Inr (), showEventsError ''Your Google login has expired. Please log in again.''
              (showLoginPrompt (updateFooterAuthStatus
                 ((showEventsLoading w)\<lparr>trace := trace w @ [GetAuthToken False,
                      Fetch ''GET'' ''https://www.googleapis.com/calendar/v3/calendars/primary/events''],
                    isAuthenticated := False\<rparr>))))"
proof -
  have api: "apiRequest ''getEvents'' \<lparr> taskId = [], eventId = [] \<rparr> (HttpResponse 401 txt body) (showEventsLoading w)
      = (Inl (Error (apiRequest_errorMessage 401 txt) None (Some 401)),
         (showEventsLoading w)\<lparr>trace := trace w @ [GetAuthToken False,
              Fetch ''GET'' ''https://www.googleapis.com/calendar/v3/calendars/primary/events'']\<rparr>)"
    using assms(2,3)
    by (simp add: apiRequest_def apiRequest_route_def chrome_identity_getAuthToken_def logEffect_def
          showEventsLoading_def setEventsList_def ok_def Let_def)
  have msg: "truthy (apiRequest_errorMessage 401 txt)"
    by (simp add: apiRequest_errorMessage_def truthy_def)
  show ?thesis
    using assms(1) events_401_is_auth_failure [of "txt"]
    by (simp add: getEvents_def getEvents_begin_def api getEvents_resume_def getEvents_catch_def msg Let_def)
qed

lemma getTasks_failed_cachedToken:
  "cachedToken (snd (getTasks_failed m w)) = cachedToken w"
  by (simp add: getTasks_failed_def andThen_def quietly_def showError_def showStatus_def
        showLoginPrompt_def updateFooterAuthStatus_def setTasksList_def setEventsList_def
        split: option.splits)

text \<open>
  C1, as amended. In a logged-in session whose token the provider answers with 401,
  \<open>getTasks\<close> and \<open>getEvents\<close> set the authenticated flag to false and the footer
  to its logged-out state, and leave the cached tasks and events as they were.
  The list of the other collection shows the login placeholder: the events list
  after \<open>getTasks\<close>, the tasks list after \<open>getEvents\<close>. Nothing is thrown by
  \<open>getEvents\<close>, and nothing by \<open>getTasks\<close> when the status element exists.
\<close>

theorem expired_session_on_401:
  assumes "isAuthenticated w" and "cachedToken w = Some t" and "truthy t"
  shows "isAuthenticated (snd (getTasks_roundtrip grant (HttpResponse 401 txt body) w)) = False
       \<and> currentTasks (snd (getTasks_roundtrip grant (HttpResponse 401 txt body) w)) = currentTasks w
       \<and> currentEvents (snd (getTasks_roundtrip grant (HttpResponse 401 txt body) w)) = currentEvents w
       \<and> authStatusDot (snd (getTasks_roundtrip grant (HttpResponse 401 txt body) w))
           = map_option (\<lambda>old. False) (authStatusDot w)
       \<and> authBtnLabel (snd (getTasks_roundtrip grant (HttpResponse 401 txt body) w))
           = map_option (\<lambda>old. ''Login'') (authBtnLabel w)
       \<and> eventsList (snd (getTasks_roundtrip grant (HttpResponse 401 txt body) w))
           = map_option (\<lambda>old. LoginPrompt) (eventsList w)
       \<and> (statusMessages w \<noteq> None \<longrightarrow>
            fst (getTasks_roundtrip grant (HttpResponse 401 txt body) w) = Inr ())
       \<and> fst (getEvents (HttpResponse 401 txt body) w) = Inr ()
       \<and> isAuthenticated (snd (getEvents (HttpResponse 401 txt body) w)) = False
       \<and> currentTasks (snd (getEvents (HttpResponse 401 txt body) w)) = currentTasks w
       \<and> currentEvents (snd (getEvents (HttpResponse 401 txt body) w)) = currentEvents w
       \<and> authStatusDot (snd (getEvents (HttpResponse 401 txt body) w))
           = map_option (\<lambda>old. False) (authStatusDot w)
       \<and> authBtnLabel (snd (getEvents (HttpResponse 401 txt body) w))
           = map_option (\<lambda>old. ''Login'') (authBtnLabel w)
       \<and> tasksList (snd (getEvents (HttpResponse 401 txt body) w))
           = map_option (\<lambda>old. LoginPrompt) (tasksList w)"
proof -
  have tasks: "getTasks_roundtrip grant (HttpResponse 401 txt body) w =
      getTasks_failed (''Tasks API error: '' @ toString 401 @ '' '' @ txt)
        ((setTasksList LoadingMessage w)\<lparr>trace := trace w @ [SendMessage ''getTasks'', GetAuthToken True,
            Fetch ''GET'' ''https://www.googleapis.com/tasks/v1/lists/@default/tasks'']\<rparr>)"
    by (rule getTasks_roundtrip_401 [OF assms])
  have events: "getEvents (HttpResponse 401 txt body) w =
      (Inr (), showEventsError ''Your Google login has expired. Please log in again.''
         (showLoginPrompt (updateFooterAuthStatus
            ((showEventsLoading w)\<lparr>trace := trace w @ [GetAuthToken False,
                 Fetch ''GET'' ''https://www.googleapis.com/calendar/v3/calendars/primary/events''],
               isAuthenticated := False\<rparr>))))"
    by (rule getEvents_401 [OF assms])
  show ?thesis
    unfolding tasks events getTasks_failed_auth [OF tasks_401_is_auth_failure]
    by (cases "statusMessages w")
       (simp_all add: showLoginPrompt_def updateFooterAuthStatus_def setTasksList_def setEventsList_def
          showEventsError_def showEventsLoading_def option.map_comp comp_def)
qed

theorem expired_session_on_401_witness:
  "fst (getTasks_roundtrip None (HttpResponse 401 ''Unauthorized'' JNull) loggedInWorld) = Inr ()
   \<and> isAuthenticated (snd (getTasks_roundtrip None (HttpResponse 401 ''Unauthorized'' JNull) loggedInWorld)) = False
   \<and> eventsList (snd (getTasks_roundtrip None (HttpResponse 401 ''Unauthorized'' JNull) loggedInWorld))
       = Some LoginPrompt
   \<and> fst (getEvents (HttpResponse 401 ''Unauthorized'' JNull) loggedInWorld) = Inr ()
   \<and> isAuthenticated (snd (getEvents (HttpResponse 401 ''Unauthorized'' JNull) loggedInWorld)) = False
   \<and> tasksList (snd (getEvents (HttpResponse 401 ''Unauthorized'' JNull) loggedInWorld)) = Some LoginPrompt"
  using expired_session_on_401 [of loggedInWorld "''ya29.token''" None "''Unauthorized''" JNull]
  by (simp add: loggedInWorld_def truthy_def)

text \<open>
  C1 as stated fails: after the 401 the cached tasks and events are still there.
\<close>

theorem expired_session_on_401_counterexample:
  "isAuthenticated loggedInWorld
   \<and> currentTasks loggedInWorld = [JObj [(''id'', JStr ''t1''), (''title'', JStr ''Write report'')]]
   \<and> currentTasks (snd (getTasks_roundtrip None (HttpResponse 401 ''Unauthorized'' JNull) loggedInWorld))
       = [JObj [(''id'', JStr ''t1''), (''title'', JStr ''Write report'')]]
   \<and> currentEvents (snd (getTasks_roundtrip None (HttpResponse 401 ''Unauthorized'' JNull) loggedInWorld))
       = [JObj [(''id'', JStr ''e1''), (''summary'', JStr ''Review'')]]"
  by code_simp

text \<open>
  C2, as amended. A 401 evicts nothing: after \<open>getTasks\<close> or \<open>getEvents\<close> ran into
  it, the platform cache holds the same token and a non-interactive \<open>getToken\<close>
  returns it again. The token is evicted by \<open>signOut\<close>, that is on logout, after
  which a non-interactive \<open>getToken\<close> resolves to none.
\<close>

theorem no_eviction_on_401:
  assumes "isAuthenticated w" and "cachedToken w = Some t" and "truthy t"
  shows "cachedToken (snd (getTasks_roundtrip grant (HttpResponse 401 txt body) w)) = Some t
       \<and> fst (getToken False None (snd (getTasks_roundtrip grant (HttpResponse 401 txt body) w))) = Inr (Some t)
       \<and> cachedToken (snd (getEvents (HttpResponse 401 txt body) w)) = Some t
       \<and> fst (getToken False None (snd (getEvents (HttpResponse 401 txt body) w))) = Inr (Some t)
       \<and> cachedToken (snd (signOut revoked w)) = None
       \<and> fst (getToken False None (snd (signOut revoked w))) = Inr None"
proof -
  have acquire: "fst (getToken False None v) = Inr (cachedToken v)" if "cachedToken v = None \<or> cachedToken v = Some t" for v
    using that assms(3)
    by (auto simp: getToken_def getToken_callback_def chrome_identity_getAuthToken_def logEffect_def Let_def)
  have tasks: "cachedToken (snd (getTasks_roundtrip grant (HttpResponse 401 txt body) w)) = Some t"
    unfolding getTasks_roundtrip_401 [OF assms] getTasks_failed_cachedToken
    using assms(2) by (simp add: setTasksList_def)
  have events: "cachedToken (snd (getEvents (HttpResponse 401 txt body) w)) = Some t"
    unfolding getEvents_401 [OF assms]
    using assms(2)
    by (simp add: showEventsError_def showLoginPrompt_def updateFooterAuthStatus_def
          showEventsLoading_def setTasksList_def setEventsList_def)
  have out: "cachedToken (snd (signOut revoked w)) = None"
    using assms(2,3)
    by (simp add: signOut_def getToken_def getToken_callback_def chrome_identity_getAuthToken_def
          chrome_identity_removeCachedAuthToken_def logEffect_def Let_def)
  show ?thesis
    using tasks events out acquire by simp
qed

theorem no_eviction_on_401_witness:
  "fst (getToken False None (snd (getEvents (HttpResponse 401 ''Unauthorized'' JNull) loggedInWorld)))
     = Inr (Some ''ya29.token'')
   \<and> fst (getToken False None (snd (signOut (HttpResponse 200 ''OK'' JNull) loggedInWorld))) = Inr None"
  using no_eviction_on_401 [of loggedInWorld "''ya29.token''" None "''Unauthorized''" JNull
      "HttpResponse 200 ''OK'' JNull"]
  by (simp add: loggedInWorld_def truthy_def)

text \<open>
  C2 as stated fails: the acquisition that follows the 401 returns the very token
  that was refused.
\<close>

theorem no_eviction_on_401_counterexample:
  "isAuthenticated loggedInWorld
   \<and> cachedToken loggedInWorld = Some ''ya29.token''
   \<and> fst (getToken False None
            (snd (getTasks_roundtrip None (HttpResponse 401 ''Unauthorized'' JNull) loggedInWorld)))
       = Inr (Some ''ya29.token'')"
  by code_simp

text \<open>
  C4, as amended. The session flag is looked at when a fetch starts, not when its
  result arrives: a successful reply replaces the cached tasks (or events) whatever
  the flag is and leaves the flag alone; logged out, \<open>getTasks\<close> sends no message
  and \<open>getEvents\<close> makes no request, and neither touches its cache.
\<close>

theorem reply_applied_without_session_check:
  "(r_success r \<longrightarrow>
      currentTasks (snd (getTasks_callback None (Some r) w)) = (case r_tasks r of Some ts \<Rightarrow> ts | None \<Rightarrow> [])
      \<and> isAuthenticated (snd (getTasks_callback None (Some r) w)) = isAuthenticated w)
   \<and> (itemsOf data = Inr items \<longrightarrow>
      currentEvents (snd (getEvents_resume (Inr data) w)) = items
      \<and> isAuthenticated (snd (getEvents_resume (Inr data) w)) = isAuthenticated w)
   \<and> (\<not> isAuthenticated w \<longrightarrow>
      trace (getTasks w) = trace w \<and> currentTasks (getTasks w) = currentTasks w
      \<and> fst (getEvents_begin w) = False \<and> currentEvents (snd (getEvents_begin w)) = currentEvents w)"
  by (simp add: getTasks_callback_def getEvents_resume_def getTasks_def getEvents_begin_def
        quietly_def renderTasks_def renderEvents_def setTasksList_def setEventsList_def
        showLoginPrompt_def showEventsError_def)

theorem reply_applied_without_session_check_witness:
  "currentTasks (snd (getTasks_callback None (Some (successReply\<lparr>r_tasks := Some [JStr ''late'']\<rparr>))
                        (loggedInWorld\<lparr>isAuthenticated := False\<rparr>))) = [JStr ''late'']
   \<and> trace (getTasks (loggedInWorld\<lparr>isAuthenticated := False\<rparr>)) = []"
  using reply_applied_without_session_check [of "successReply\<lparr>r_tasks := Some [JStr ''late'']\<rparr>"
      "loggedInWorld\<lparr>isAuthenticated := False\<rparr>" "JObj []" "[]"]
  by (simp add: successReply_def loggedInWorld_def)

text \<open>
  C4 as stated fails: a fetch is started, the logout completes and empties the
  caches, then the reply of the fetch arrives and fills the task cache of the
  logged-out session.
\<close>

theorem reply_applied_without_session_check_counterexample:
  "isAuthenticated (session [RefreshTasks, LogoutReply None (Some successReply)] loggedInWorld) = False
   \<and> currentTasks (session [RefreshTasks, LogoutReply None (Some successReply)] loggedInWorld) = []
   \<and> isAuthenticated
        (session [RefreshTasks, LogoutReply None (Some successReply),
                  TasksReply None (Some (successReply\<lparr>r_tasks := Some [JStr ''late'']\<rparr>))] loggedInWorld)
       = False
   \<and> currentTasks
        (session [RefreshTasks, LogoutReply None (Some successReply),
                  TasksReply None (Some (successReply\<lparr>r_tasks := Some [JStr ''late'']\<rparr>))] loggedInWorld)
       = [JStr ''late'']
   \<and> tasksList
        (session [RefreshTasks, LogoutReply None (Some successReply),
                  TasksReply None (Some (successReply\<lparr>r_tasks := Some [JStr ''late'']\<rparr>))] loggedInWorld)
       = Some (Rendered [JStr ''late''])"
  by code_simp

section \<open>Properties of what is kept on the device\<close>

lemma localData_updates [simp]:
  "localData (w\<lparr>isAuthenticated := a\<rparr>) = localData w"
  "localData (w\<lparr>currentTasks := ts\<rparr>) = localData w"
  "localData (w\<lparr>currentEvents := es\<rparr>) = localData w"
  "localData (w\<lparr>tasksList := p\<rparr>) = localData w"
  "localData (w\<lparr>eventsList := p\<rparr>) = localData w"
  "localData (w\<lparr>noEventsMessage := d\<rparr>) = localData w"
  "localData (w\<lparr>authStatusDot := c\<rparr>) = localData w"
  "localData (w\<lparr>authBtnLabel := l\<rparr>) = localData w"
  "localData (w\<lparr>statusMessages := m\<rparr>) = localData w"
  "localData (w\<lparr>cachedToken := k\<rparr>) = localData w"
  "localData (w\<lparr>trace := tr\<rparr>) = localData w"
  by (simp_all add: localData_def)

lemma display_local [simp]:
  "localData (setTasksList p w) = localData w"
  "localData (setEventsList p w) = localData w"
  "localData (updateFooterAuthStatus w) = localData w"
  "localData (showLoginPrompt w) = localData w"
  "localData (showEventsLoading w) = localData w"
  "localData (showEventsError m w) = localData w"
  "localData (renderTasks w) = localData w"
  "localData (renderEvents w) = localData w"
  "localData (logEffect e w) = localData w"
  by (simp_all add: setTasksList_def setEventsList_def updateFooterAuthStatus_def
        showLoginPrompt_def showEventsLoading_def showEventsError_def renderTasks_def
        renderEvents_def logEffect_def)

lemma showStatus_local [simp]:
  "localData (snd (showStatus m ty w)) = localData w"
  "localData (snd (showError m w)) = localData w"
  by (simp_all add: showError_def showStatus_def split: option.splits)

lemma andThen_local:
  assumes "\<And>v. localData (snd (f v)) = localData v" and "\<And>v. localData (snd (g v)) = localData v"
  shows "localData (snd (andThen f g w)) = localData w"
proof (cases "f w")
  case (Pair r w1)
  have "localData w1 = localData w"
    using assms(1) [of w] Pair by simp
  then show ?thesis
    using assms(2) [of w1] Pair by (cases r) (simp_all add: andThen_def)
qed

lemma quietly_local:
  "(\<And>v. localData (f v) = localData v) \<Longrightarrow> localData (snd (quietly f w)) = localData w"
  by (simp add: quietly_def)

lemma identity_local [simp]:
  "localData (snd (chrome_identity_getAuthToken i g w)) = localData w"
  "localData (chrome_identity_removeCachedAuthToken t w) = localData w"
  "localData (snd (getToken i g w)) = localData w"
  by (simp_all add: chrome_identity_getAuthToken_def chrome_identity_removeCachedAuthToken_def
        getToken_def Let_def split: option.splits prod.splits)

lemma signOut_local [simp]: "localData (snd (signOut revoked w)) = localData w"
proof (cases "getToken False None w")
  case (Pair r w1)
  have "localData w1 = localData w"
    using identity_local(3) [of False None w] Pair by simp
  then show ?thesis
    using Pair by (simp add: signOut_def Let_def split: sum.splits option.splits)
qed

lemma bg_getTasks_local [simp]: "localData (snd (bg_getTasks grant fetched w)) = localData w"
proof (cases "getToken True grant w")
  case (Pair r w1)
  have "localData w1 = localData w"
    using identity_local(3) [of True grant w] Pair by simp
  then show ?thesis
    using Pair by (simp add: bg_getTasks_def Let_def split: sum.splits option.splits fetchResult.splits)
qed

lemma handleAuthenticate_local [simp]: "localData (snd (handleAuthenticate grant w)) = localData w"
proof (cases "getToken True grant w")
  case (Pair r w1)
  have "localData w1 = localData w"
    using identity_local(3) [of True grant w] Pair by simp
  then show ?thesis
    using Pair by (simp add: handleAuthenticate_def split: sum.splits option.splits)
qed

lemma handleGetTasks_local [simp]: "localData (snd (handleGetTasks grant fetched w)) = localData w"
  using bg_getTasks_local [of grant fetched w]
  by (cases "bg_getTasks grant fetched w") (simp add: handleGetTasks_def split: sum.splits)

lemma bg_handleLogout_local [simp]: "localData (snd (bg_handleLogout revoked w)) = localData w"
  using signOut_local [of revoked w]
  by (cases "signOut revoked w") (simp add: bg_handleLogout_def split: sum.splits)

lemma getTasks_local [simp]: "localData (getTasks w) = localData w"
  by (simp add: getTasks_def)

lemma getEvents_begin_local [simp]: "localData (snd (getEvents_begin w)) = localData w"
  by (simp add: getEvents_begin_def)

lemma getTasks_failed_local [simp]: "localData (snd (getTasks_failed m w)) = localData w"
  unfolding getTasks_failed_def
  by (intro andThen_local quietly_local) (simp_all add: andThen_local quietly_local)

lemma getTasks_callback_local [simp]: "localData (snd (getTasks_callback e r w)) = localData w"
  unfolding getTasks_callback_def
  by (auto split: option.splits simp: quietly_def intro!: andThen_local quietly_local)

lemma getEvents_resume_local [simp]: "localData (snd (getEvents_resume settled w)) = localData w"
  by (simp add: getEvents_resume_def getEvents_catch_def Let_def split: sum.splits)

lemma handleLogout_local [simp]: "localData (snd (handleLogout w)) = localData w"
  unfolding handleLogout_def by (intro andThen_local quietly_local) simp_all

lemma handleLogin_local [simp]: "localData (snd (handleLogin w)) = localData w"
  unfolding handleLogin_def by (intro andThen_local quietly_local) simp_all

lemma handleLogout_callback_local [simp]:
  "localData (snd (handleLogout_callback e r w)) = localData w"
  unfolding handleLogout_callback_def
  by (auto split: option.splits intro!: andThen_local quietly_local)

lemma showTab_todo_local [simp]: "localData (showTab_todo w) = localData w"
  by (simp add: showTab_todo_def)

lemma handleLogin_callback_local [simp]:
  "localData (snd (handleLogin_callback e r w)) = localData w"
  unfolding handleLogin_callback_def Let_def
  by (auto split: option.splits intro!: andThen_local quietly_local)

lemma takeTurn_local [simp]: "localData (takeTurn t w) = localData w"
  by (cases t) simp_all

lemma session_local: "localData (session ts w) = localData w"
  by (induction ts arbitrary: w) simp_all

lemma handleLogout_callback_clears:
  "r_success r \<Longrightarrow>
   currentTasks (snd (handleLogout_callback None (Some r) w)) = []
   \<and> currentEvents (snd (handleLogout_callback None (Some r) w)) = []
   \<and> isAuthenticated (snd (handleLogout_callback None (Some r) w)) = False"
  by (simp add: handleLogout_callback_def andThen_def quietly_def showStatus_def showLoginPrompt_def
        updateFooterAuthStatus_def setTasksList_def setEventsList_def split: option.splits)

text \<open>
  C5. Whatever happens in a session (clicks on login and logout, the background
  serving them, replies arriving in any order and with any content), the starred
  task ids, both storage areas (the saved links are in the local one) and the cache
  of saved links stay as they were. A successful logout in particular empties the
  task and event caches and touches none of these.
\<close>

theorem logout_keeps_local_data:
  "starredTasks (session ts w) = starredTasks w
   \<and> storageLocal (session ts w) = storageLocal w
   \<and> storageSync (session ts w) = storageSync w
   \<and> savedTabsCache (session ts w) = savedTabsCache w
   \<and> (r_success r \<longrightarrow>
        isAuthenticated (takeTurn (LogoutReply None (Some r)) w) = False
        \<and> currentTasks (takeTurn (LogoutReply None (Some r)) w) = []
        \<and> currentEvents (takeTurn (LogoutReply None (Some r)) w) = []
        \<and> starredTasks (takeTurn (LogoutReply None (Some r)) w) = starredTasks w
        \<and> storageLocal (takeTurn (LogoutReply None (Some r)) w) = storageLocal w
        \<and> storageSync (takeTurn (LogoutReply None (Some r)) w) = storageSync w)"
  using session_local [of ts w] takeTurn_local [of "LogoutReply None (Some r)" w]
    handleLogout_callback_clears [of r w]
  by (simp add: localData_def)

theorem logout_keeps_local_data_witness:
  "starredTasks
     (session [ClickAuthToggle, BackgroundLogout (HttpResponse 200 ''OK'' JNull),
               LogoutReply None (Some successReply), ClickAuthToggle,
               BackgroundAuthenticate (Some ''ya29.next''),
               LoginReply None (Some (successReply\<lparr>r_authenticated := Some True\<rparr>))] loggedInWorld)
     = {''t1''}
   \<and> storageLocal
     (session [ClickAuthToggle, BackgroundLogout (HttpResponse 200 ''OK'' JNull),
               LogoutReply None (Some successReply), ClickAuthToggle,
               BackgroundAuthenticate (Some ''ya29.next''),
               LoginReply None (Some (successReply\<lparr>r_authenticated := Some True\<rparr>))] loggedInWorld)
     = [(''starredTasks'', JArr [JStr ''t1''])]
   \<and> currentTasks (takeTurn (LogoutReply None (Some successReply)) loggedInWorld) = []"
  (is "starredTasks (session ?cycle _) = _ \<and> _ \<and> _")
proof -
  have starred: "starredTasks loggedInWorld = {''t1''}"
    and stored: "storageLocal loggedInWorld = [(''starredTasks'', JArr [JStr ''t1''])]"
    by (simp_all add: loggedInWorld_def)
  have ok: "r_success successReply"
    by (simp add: successReply_def)
  note kept = logout_keeps_local_data [of ?cycle loggedInWorld successReply]
  have "starredTasks (session ?cycle loggedInWorld) = starredTasks loggedInWorld"
    using kept by (rule conjunct1)
  moreover have "storageLocal (session ?cycle loggedInWorld) = storageLocal loggedInWorld"
    using kept by (elim conjE)
  moreover have "currentTasks (takeTurn (LogoutReply None (Some successReply)) loggedInWorld) = []"
    using kept ok by (elim conjE impE) assumption
  ultimately show ?thesis
    by (simp only: starred stored simp_thms)
qed

section \<open>Properties of LinkHive\<close>

lemma trim_General: "trim ''General'' = ''General''"
  by code_simp

lemma General_not_inherited: "''General'' \<notin> set objectPrototypeKeys"
  by code_simp

lemma set_starredFirst [simp]: "set (starredFirst items) = set items"
  by (auto simp: starredFirst_def)

lemma length_starredFirst [simp]: "length (starredFirst items) = length items"
  by (simp add: starredFirst_def sum_length_filter_compl)

lemma set_objectEntries [simp]: "set (objectEntries obj) = set obj"
  by (auto simp: objectEntries_def)

lemma getProperty_plain:
  "k \<notin> set objectPrototypeKeys \<Longrightarrow>
   getProperty obj k = (case map_of obj k of Some v \<Rightarrow> Own v | None \<Rightarrow> Undefined)"
  by (simp add: getProperty_def)

lemma groupLinks_grouped:
  assumes "\<forall>it \<in> set its. groupKey it \<notin> set objectPrototypeKeys"
  shows "\<exists>res. groupLinks acc its = Inr res \<and>
           (\<forall>k. map_of res k =
                  (if filter (\<lambda>it. groupKey it = k) its = [] then map_of acc k
                   else Some ((case map_of acc k of Some xs \<Rightarrow> xs | None \<Rightarrow> [])
                              @ filter (\<lambda>it. groupKey it = k) its)))"
  using assms
proof (induction its arbitrary: acc)
  case Nil
  then show ?case by simp
next
  case (Cons it its)
  have plain: "groupKey it \<notin> set objectPrototypeKeys"
    using Cons.prems by simp
  have rest: "\<forall>it \<in> set its. groupKey it \<notin> set objectPrototypeKeys"
    using Cons.prems by simp
  let ?old = "case map_of acc (groupKey it) of Some xs \<Rightarrow> xs | None \<Rightarrow> []"
  let ?acc = "AList.update (groupKey it) (?old @ [it]) acc"
  have step: "groupLinks acc (it # its) = groupLinks ?acc its"
    by (simp add: getProperty_plain [OF plain] split: option.splits)
  obtain res where res: "groupLinks ?acc its = Inr res"
    and look: "\<And>k. map_of res k =
                  (if filter (\<lambda>it. groupKey it = k) its = [] then map_of ?acc k
                   else Some ((case map_of ?acc k of Some xs \<Rightarrow> xs | None \<Rightarrow> [])
                              @ filter (\<lambda>it. groupKey it = k) its))"
    using Cons.IH [OF rest, of ?acc] by blast
  show ?case
    unfolding step res
    by (rule exI [of _ res]) (auto simp: look AList.update_conv' split: option.splits)
qed

lemma groupLinks_members:
  assumes "groupLinks acc its = Inr res"
    and "list_all (\<lambda>(g, items). items \<noteq> [] \<and> (\<forall>it \<in> set items. it \<in> S \<and> groupKey it = g)) acc"
    and "set its \<subseteq> S"
  shows "list_all (\<lambda>(g, items). items \<noteq> [] \<and> (\<forall>it \<in> set items. it \<in> S \<and> groupKey it = g)) res"
  using assms
proof (induction its arbitrary: acc)
  case Nil
  then show ?case by simp
next
  case (Cons it its)
  let ?P = "\<lambda>(g, items). items \<noteq> [] \<and> (\<forall>it \<in> set items. it \<in> S \<and> groupKey it = g)"
  have it: "it \<in> S" and rest: "set its \<subseteq> S"
    using Cons.prems(3) by simp_all
  show ?case
  proof (cases "getProperty acc (groupKey it)")
    case (Own items)
    then have "map_of acc (groupKey it) = Some items"
      by (simp add: getProperty_def split: option.splits if_splits)
    then have "?P (groupKey it, items)"
      using Cons.prems(2) by (rule map_of_list_all [rotated])
    then have "?P (groupKey it, items @ [it])"
      using it by auto
    then have "list_all ?P (AList.update (groupKey it) (items @ [it]) acc)"
      using Cons.prems(2) by (intro list_all_update)
    then show ?thesis
      using Cons.IH [OF _ _ rest] Cons.prems(1) Own by simp
  next
    case Inherited
    then show ?thesis
      using Cons.prems(1) by simp
  next
    case Undefined
    have "?P (groupKey it, [it])"
      using it by simp
    then have "list_all ?P (AList.update (groupKey it) [it] acc)"
      using Cons.prems(2) by (intro list_all_update)
    then show ?thesis
      using Cons.IH [OF _ _ rest] Cons.prems(1) Undefined by simp
  qed
qed

lemma createTabElement_found:
  "buttonsFound found tab \<Longrightarrow> createTabElement found tab = Inr tab"
  by (simp add: createTabElement_def buttonsFound_def Let_def)

lemma createTabElements_found:
  "\<forall>tab \<in> set tabs. buttonsFound found tab \<Longrightarrow> createTabElements found tabs = Inr tabs"
  by (induction tabs) (simp_all add: createTabElement_found)

lemma createGroupElement_found:
  "\<forall>tab \<in> set tabs. buttonsFound found tab \<Longrightarrow> toggleFound found g (length tabs) \<Longrightarrow>
   createGroupElement found g tabs = Inr (g, tabs)"
  by (simp add: createGroupElement_def createTabElements_found toggleFound_def)

lemma drawGroups_frame:
  "savedTabsCache (snd (drawGroups found entries w)) = savedTabsCache w
   \<and> storageLocal (snd (drawGroups found entries w)) = storageLocal w
   \<and> statusMessages (snd (drawGroups found entries w)) = statusMessages w"
  by (induction found entries w rule: drawGroups.induct) (simp_all split: sum.splits)

lemma drawGroups_found:
  assumes "\<forall>(g, items) \<in> set entries.
             createGroupElement found g (starredFirst items) = Inr (g, starredFirst items)"
    and "savedTabsList w = Some shown"
  shows "drawGroups found entries w =
           (Inr (), w\<lparr>savedTabsList := Some (shown @ map (\<lambda>(g, items). (g, starredFirst items)) entries)\<rparr>)"
  using assms
proof (induction entries arbitrary: w shown)
  case Nil
  then show ?case by simp
next
  case (Cons entry entries)
  obtain g items where entry: "entry = (g, items)"
    by (cases entry)
  have built: "createGroupElement found g (starredFirst items) = Inr (g, starredFirst items)"
    using Cons.prems(1) entry by simp
  let ?w = "w\<lparr>savedTabsList := Some (shown @ [(g, starredFirst items)])\<rparr>"
  have "drawGroups found entries ?w =
      (Inr (), ?w\<lparr>savedTabsList :=
         Some ((shown @ [(g, starredFirst items)]) @ map (\<lambda>(g, items). (g, starredFirst items)) entries)\<rparr>)"
    using Cons.prems(1) by (intro Cons.IH) simp_all
  then show ?case
    using built Cons.prems(2) by (simp add: entry)
qed


lemma createGroup_General:
  assumes "statusMessages w = Some m"
  shows "\<exists>w1. createGroup ''General'' w = (Inr (), w1)
            \<and> savedTabsCache w1 = savedTabsCache w \<and> storageLocal w1 = storageLocal w
            \<and> statusMessages w1 \<noteq> None
            \<and> (savedTabsList w1 = None) = (savedTabsList w = None)"
  using assms
  by (cases "savedTabsList w")
     (simp_all add: createGroup_def trim_General truthy_def showStatus_def)

lemma renderSavedTabs_frame:
  "savedTabsCache (snd (renderSavedTabs found w)) = savedTabsCache w
   \<and> storageLocal (snd (renderSavedTabs found w)) = storageLocal w
   \<and> statusMessages (snd (renderSavedTabs found w)) = statusMessages w"
  using drawGroups_frame [of found _ "w\<lparr>savedTabsList := Some []\<rparr>"]
  by (simp add: renderSavedTabs_def split: option.splits sum.splits)

lemma setSavedTabsArray_frame:
  "savedTabsCache (snd (setSavedTabsArray arr se re w)) = savedTabsCache w
   \<and> statusMessages (snd (setSavedTabsArray arr se re w)) = statusMessages w
   \<and> savedTabsList (snd (setSavedTabsArray arr se re w)) = savedTabsList w"
  by (simp add: setSavedTabsArray_def Let_def split: option.splits)

lemma setSavedTabsArray_stored:
  "map_of (storageLocal (snd (setSavedTabsArray arr None re w))) ''linkHiveItems''
     = Some (JArr (map linkToJson arr))"
  by (simp add: setSavedTabsArray_def Let_def chrome_storage_set_def chrome_storage_remove_def
        AList.update_conv' AList.restr_conv' restrict_map_def split: option.splits)

lemma setSavedTabsArray_ok:
  "fst (setSavedTabsArray arr None None w) = Inr ()"
  by (simp add: setSavedTabsArray_def Let_def)

lemma renderSavedTabs_shows:
  assumes "savedTabsList w = Some old"
    and "\<forall>it \<in> set (savedTabsCache w).
           groupKey it \<notin> set objectPrototypeKeys \<and> buttonsFound found it
           \<and> (\<forall>n. toggleFound found (groupKey it) n)"
    and "l \<in> set (savedTabsCache w)"
  shows "\<exists>shown items. renderSavedTabs found w = (Inr (), w\<lparr>savedTabsList := Some shown\<rparr>)
           \<and> (groupKey l, items) \<in> set shown \<and> l \<in> set items"
proof -
  let ?cache = "savedTabsCache w"
  have plain: "\<forall>it \<in> set ?cache. groupKey it \<notin> set objectPrototypeKeys"
    using assms(2) by simp
  obtain res where res: "groupLinks [] ?cache = Inr res"
    and look: "\<And>k. map_of res k =
        (if filter (\<lambda>it. groupKey it = k) ?cache = [] then None
         else Some (filter (\<lambda>it. groupKey it = k) ?cache))"
    using groupLinks_grouped [OF plain, of "[]"] by auto
  have members: "list_all (\<lambda>(g, items). items \<noteq> [] \<and> (\<forall>it \<in> set items. it \<in> set ?cache \<and> groupKey it = g)) res"
    by (rule groupLinks_members [OF res]) simp_all
  have built: "createGroupElement found g (starredFirst items) = Inr (g, starredFirst items)"
    if "(g, items) \<in> set res" for g items
  proof -
    have some: "items \<noteq> []" and each: "\<forall>it \<in> set items. it \<in> set ?cache \<and> groupKey it = g"
      using members that by (auto simp: list_all_iff)
    obtain it where "it \<in> set items"
      using some by (cases items) auto
    then have "toggleFound found g (length (starredFirst items))"
      using each assms(2) by auto
    moreover have "\<forall>tab \<in> set (starredFirst items). buttonsFound found tab"
      using each assms(2) by auto
    ultimately show ?thesis
      by (intro createGroupElement_found)
  qed
  let ?shown = "map (\<lambda>(g, items). (g, starredFirst items)) (objectEntries res)"
  have drawn: "drawGroups found (objectEntries res) (w\<lparr>savedTabsList := Some []\<rparr>) =
      (Inr (), w\<lparr>savedTabsList := Some ?shown\<rparr>)"
    using drawGroups_found [of "objectEntries res" found "w\<lparr>savedTabsList := Some []\<rparr>" "[]"] built
    by auto
  have here: "filter (\<lambda>it. groupKey it = groupKey l) ?cache \<noteq> []"
    using assms(3) by (auto simp: filter_empty_conv)
  have "(groupKey l, filter (\<lambda>it. groupKey it = groupKey l) ?cache) \<in> set res"
    using look [of "groupKey l"] here by (auto dest: map_of_SomeD)
  then have "(groupKey l, starredFirst (filter (\<lambda>it. groupKey it = groupKey l) ?cache)) \<in> set ?shown"
    by force
  moreover have "l \<in> set (starredFirst (filter (\<lambda>it. groupKey it = groupKey l) ?cache))"
    using assms(3) by simp
  moreover have "renderSavedTabs found w = (Inr (), w\<lparr>savedTabsList := Some ?shown\<rparr>)"
    using assms(1) res drawn by (simp add: renderSavedTabs_def)
  ultimately show ?thesis by blast
qed

lemma reported_afterwards:
  assumes "statusMessages (snd (f w)) \<noteq> None"
  shows "fst (case andThen f (showStatus m ty) w of
                (Inl e, w2) \<Rightarrow> showError (msg e) w2
              | (Inr u, w2) \<Rightarrow> (Inr (), w2)) = Inr ()
       \<and> savedTabsCache (snd (case andThen f (showStatus m ty) w of
                (Inl e, w2) \<Rightarrow> showError (msg e) w2
              | (Inr u, w2) \<Rightarrow> (Inr (), w2))) = savedTabsCache (snd (f w))
       \<and> storageLocal (snd (case andThen f (showStatus m ty) w of
                (Inl e, w2) \<Rightarrow> showError (msg e) w2
              | (Inr u, w2) \<Rightarrow> (Inr (), w2))) = storageLocal (snd (f w))
       \<and> savedTabsList (snd (case andThen f (showStatus m ty) w of
                (Inl e, w2) \<Rightarrow> showError (msg e) w2
              | (Inr u, w2) \<Rightarrow> (Inr (), w2))) = savedTabsList (snd (f w))"
proof (cases "f w")
  case (Pair r w2)
  then show ?thesis
    using assms
    by (cases r) (auto simp: andThen_def showStatus_def showError_def)
qed

lemma saveOrUpdateSavedTab_cache:
  "savedTabsCache (snd (saveOrUpdateSavedTab fd freshId se re found w)) =
     (case fd_id fd of
        Some i \<Rightarrow>
          (case findIndex (\<lambda>it. link_id it = i) (savedTabsCache w) of
             Some idx \<Rightarrow>
               (savedTabsCache w)[idx := (savedTabsCache w ! idx)\<lparr>link_id := i, link_title := fd_title fd,
                   link_note := fd_note fd, link_url := fd_url fd, link_group := fd_group fd\<rparr>]
           | None \<Rightarrow> savedTabsCache w)
      | None \<Rightarrow>
          savedTabsCache w @ [\<lparr> link_id = freshId, link_title = fd_title fd, link_url = fd_url fd,
             link_note = fd_note fd, link_group = fd_group fd, link_starred = False \<rparr>])
   \<and> statusMessages (snd (saveOrUpdateSavedTab fd freshId se re found w)) = statusMessages w"
proof -
  have "savedTabsCache (snd (andThen (setSavedTabsArray arr se re) (renderSavedTabs found) v)) = savedTabsCache v
      \<and> statusMessages (snd (andThen (setSavedTabsArray arr se re) (renderSavedTabs found) v)) = statusMessages v"
    for arr v
    using setSavedTabsArray_frame [of arr se re v]
      renderSavedTabs_frame [of found "snd (setSavedTabsArray arr se re v)"]
    by (cases "setSavedTabsArray arr se re v") (auto simp: andThen_def split: sum.splits)
  then show ?thesis
    by (simp add: saveOrUpdateSavedTab_def Let_def)
qed

lemma saveOrUpdateSavedTab_stored:
  "map_of (storageLocal (snd (saveOrUpdateSavedTab fd freshId None re found w))) ''linkHiveItems''
     = Some (JArr (map linkToJson (savedTabsCache (snd (saveOrUpdateSavedTab fd freshId None re found w)))))"
proof -
  have "map_of (storageLocal (snd (andThen (setSavedTabsArray arr None re) (renderSavedTabs found) v)))
            ''linkHiveItems''
          = Some (JArr (map linkToJson arr))
      \<and> savedTabsCache (snd (andThen (setSavedTabsArray arr None re) (renderSavedTabs found) v)) = savedTabsCache v"
    for arr v
    using setSavedTabsArray_stored [of arr re v] setSavedTabsArray_frame [of arr None re v]
      renderSavedTabs_frame [of found "snd (setSavedTabsArray arr None re v)"]
    by (cases "setSavedTabsArray arr None re v") (auto simp: andThen_def split: sum.splits)
  then show ?thesis
    by (simp add: saveOrUpdateSavedTab_def Let_def)
qed

lemma saveOrUpdateSavedTab_shown:
  assumes "savedTabsList w \<noteq> None"
    and "\<forall>it \<in> set (savedTabsCache (snd (saveOrUpdateSavedTab fd freshId None None found w))).
           groupKey it \<notin> set objectPrototypeKeys \<and> buttonsFound found it
           \<and> (\<forall>n. toggleFound found (groupKey it) n)"
    and "l \<in> set (savedTabsCache (snd (saveOrUpdateSavedTab fd freshId None None found w)))"
  shows "\<exists>shown items. savedTabsList (snd (saveOrUpdateSavedTab fd freshId None None found w)) = Some shown
           \<and> (groupKey l, items) \<in> set shown \<and> l \<in> set items"
proof -
  have shown: "\<exists>shown items.
        savedTabsList (snd (andThen (setSavedTabsArray arr None None) (renderSavedTabs found) v)) = Some shown
        \<and> (groupKey l, items) \<in> set shown \<and> l \<in> set items"
    if present: "savedTabsList v \<noteq> None"
      and intact: "\<forall>it \<in> set (savedTabsCache v).
           groupKey it \<notin> set objectPrototypeKeys \<and> buttonsFound found it
           \<and> (\<forall>n. toggleFound found (groupKey it) n)"
      and member: "l \<in> set (savedTabsCache v)" for arr v
  proof -
    obtain v1 where wrote: "setSavedTabsArray arr None None v = (Inr (), v1)"
      using setSavedTabsArray_ok [of arr v] by (cases "setSavedTabsArray arr None None v") simp
    have same: "savedTabsCache v1 = savedTabsCache v" "savedTabsList v1 = savedTabsList v"
      using setSavedTabsArray_frame [of arr None None v] by (simp_all add: wrote)
    obtain old where old: "savedTabsList v1 = Some old"
      using present same by auto
    have "\<exists>shown items. renderSavedTabs found v1 = (Inr (), v1\<lparr>savedTabsList := Some shown\<rparr>)
           \<and> (groupKey l, items) \<in> set shown \<and> l \<in> set items"
      using renderSavedTabs_shows [OF old, of found l] intact member same by simp
    then show ?thesis
      by (auto simp: andThen_def wrote)
  qed
  show ?thesis
    using assms saveOrUpdateSavedTab_cache [of fd freshId None None found w]
    unfolding saveOrUpdateSavedTab_def Let_def
    by (intro shown) (simp_all split: option.splits)
qed


lemma handleSaveTabFormSubmit_General:
  assumes "saved_tab_group form = []"
    and "truthy (trim (saved_tab_title form))"
    and "truthy (trim (saved_tab_url form))"
    and "statusMessages w \<noteq> None"
  shows "\<exists>w1. savedTabsCache w1 = savedTabsCache w \<and> storageLocal w1 = storageLocal w
            \<and> statusMessages w1 \<noteq> None \<and> (savedTabsList w1 = None) = (savedTabsList w = None)
            \<and> fst (handleSaveTabFormSubmit form freshId se re found w) = Inr ()
            \<and> savedTabsCache (snd (handleSaveTabFormSubmit form freshId se re found w))
                = savedTabsCache (snd (saveOrUpdateSavedTab
                    \<lparr> fd_id = (if truthy (case editing_savedtab_id form of Some v \<Rightarrow> trim v | None \<Rightarrow> [])
                                then Some (case editing_savedtab_id form of Some v \<Rightarrow> trim v | None \<Rightarrow> [])
                                else None),
                      fd_title = trim (saved_tab_title form), fd_note = trim (saved_tab_note form),
                      fd_url = trim (saved_tab_url form), fd_group = ''General'' \<rparr> freshId se re found w1))
            \<and> storageLocal (snd (handleSaveTabFormSubmit form freshId se re found w))
                = storageLocal (snd (saveOrUpdateSavedTab
                    \<lparr> fd_id = (if truthy (case editing_savedtab_id form of Some v \<Rightarrow> trim v | None \<Rightarrow> [])
                                then Some (case editing_savedtab_id form of Some v \<Rightarrow> trim v | None \<Rightarrow> [])
                                else None),
                      fd_title = trim (saved_tab_title form), fd_note = trim (saved_tab_note form),
                      fd_url = trim (saved_tab_url form), fd_group = ''General'' \<rparr> freshId se re found w1))
            \<and> savedTabsList (snd (handleSaveTabFormSubmit form freshId se re found w))
                = savedTabsList (snd (saveOrUpdateSavedTab
                    \<lparr> fd_id = (if truthy (case editing_savedtab_id form of Some v \<Rightarrow> trim v | None \<Rightarrow> [])
                                then Some (case editing_savedtab_id form of Some v \<Rightarrow> trim v | None \<Rightarrow> [])
                                else None),
                      fd_title = trim (saved_tab_title form), fd_note = trim (saved_tab_note form),
                      fd_url = trim (saved_tab_url form), fd_group = ''General'' \<rparr> freshId se re found w1))"
    (is "\<exists>w1. _ \<and> _ \<and> _ \<and> _ \<and> _ \<and> _ = savedTabsCache (snd (saveOrUpdateSavedTab ?fd _ _ _ _ _)) \<and> _ \<and> _")
proof -
  obtain m where m: "statusMessages w = Some m"
    using assms(4) by auto
  obtain w1 where made: "createGroup ''General'' w = (Inr (), w1)"
    and w1: "savedTabsCache w1 = savedTabsCache w" "storageLocal w1 = storageLocal w"
      "statusMessages w1 \<noteq> None" "(savedTabsList w1 = None) = (savedTabsList w = None)"
    using createGroup_General [OF m] by (elim exE conjE)
  let ?id = "case editing_savedtab_id form of Some v \<Rightarrow> trim v | None \<Rightarrow> []"
  have unfolded: "handleSaveTabFormSubmit form freshId se re found w =
      (case andThen (saveOrUpdateSavedTab ?fd freshId se re found)
               (showStatus (if truthy ?id then ''Link updated'' else ''Link saved'') ''success'') w1 of
         (Inl e, w2) \<Rightarrow> showError (''Failed to save tab: '' @ messageOf e) w2
       | (Inr u, w2) \<Rightarrow> (Inr (), w2))"
    using assms(1,2,3) made
    by (simp add: handleSaveTabFormSubmit_def Let_def truthy_def)
  have status: "statusMessages (snd (saveOrUpdateSavedTab ?fd freshId se re found w1)) \<noteq> None"
    using saveOrUpdateSavedTab_cache [of ?fd freshId se re found w1] w1(3) by simp
  show ?thesis
    unfolding unfolded
    using reported_afterwards [where f = "saveOrUpdateSavedTab ?fd freshId se re found" and w = w1
        and m = "if truthy ?id then ''Link updated'' else ''Link saved''" and ty = "''success''"
        and msg = "\<lambda>e. ''Failed to save tab: '' @ messageOf e", OF status] w1
    by (intro exI [of _ w1]) simp
qed

lemma groupKey_General:
  "link_group l = [] \<or> link_group l = ''General'' \<Longrightarrow> groupKey l = ''General''"
  by (auto simp: groupKey_def truthy_def trim_General)

lemma findIndex_Some:
  "findIndex P xs = Some idx \<Longrightarrow> idx < length xs \<and> P (xs ! idx)"
  by (induction xs arbitrary: idx) (auto split: if_splits)

lemma edit_keeps_id:
  "link_id x = i \<Longrightarrow>
   x\<lparr>link_id := i, link_title := t, link_note := n, link_url := u, link_group := g\<rparr>
     = x\<lparr>link_title := t, link_note := n, link_url := u, link_group := g\<rparr>"
  by (cases x) simp

text \<open>
  C6, as amended. A form submitted with an empty group field, with a title and a
  URL, on a page that has the element for status messages, is handled without an
  exception and filed under the group "General":
  a new link is pushed on the cache with the group "General"; an edit of a link
  that is in the cache gives that link the group "General" and keeps its place and
  its star; an edit under an id that is not in the cache leaves the cache as it
  was. When the write is accepted, the stored list is the cache. A link whose group
  is empty or "General" has the group key "General", and every such link of the
  cache, the one submitted included, is drawn under the group "General", when both
  platform calls succeed, the list element is on the page, no link of the cache
  has a group that names a property every object inherits, and the parser finds
  the buttons of every card and the toggle of every header.
\<close>

theorem empty_group_saved_under_General:
  assumes "saved_tab_group form = []"
    and "truthy (trim (saved_tab_title form))"
    and "truthy (trim (saved_tab_url form))"
    and "statusMessages w \<noteq> None"
  shows "fst (handleSaveTabFormSubmit form freshId se re found w) = Inr ()
       \<and> ((case editing_savedtab_id form of Some v \<Rightarrow> trim v | None \<Rightarrow> []) = [] \<longrightarrow>
            savedTabsCache (snd (handleSaveTabFormSubmit form freshId se re found w)) =
              savedTabsCache w @
                [\<lparr> link_id = freshId, link_title = trim (saved_tab_title form),
                   link_url = trim (saved_tab_url form), link_note = trim (saved_tab_note form),
                   link_group = ''General'', link_starred = False \<rparr>])
       \<and> ((case editing_savedtab_id form of Some v \<Rightarrow> trim v | None \<Rightarrow> []) \<noteq> []
            \<and> findIndex (\<lambda>it. link_id it = (case editing_savedtab_id form of Some v \<Rightarrow> trim v | None \<Rightarrow> []))
                 (savedTabsCache w) = Some idx \<longrightarrow>
            idx < length (savedTabsCache w)
            \<and> savedTabsCache (snd (handleSaveTabFormSubmit form freshId se re found w)) =
                (savedTabsCache w)
                  [idx := (savedTabsCache w ! idx)
                     \<lparr>link_title := trim (saved_tab_title form), link_note := trim (saved_tab_note form),
                       link_url := trim (saved_tab_url form), link_group := ''General''\<rparr>])
       \<and> ((case editing_savedtab_id form of Some v \<Rightarrow> trim v | None \<Rightarrow> []) \<noteq> []
            \<and> findIndex (\<lambda>it. link_id it = (case editing_savedtab_id form of Some v \<Rightarrow> trim v | None \<Rightarrow> []))
                 (savedTabsCache w) = None \<longrightarrow>
            savedTabsCache (snd (handleSaveTabFormSubmit form freshId se re found w)) = savedTabsCache w)
       \<and> (se = None \<longrightarrow>
            map_of (storageLocal (snd (handleSaveTabFormSubmit form freshId se re found w))) ''linkHiveItems'' =
              Some (JArr (map linkToJson
                (savedTabsCache (snd (handleSaveTabFormSubmit form freshId se re found w))))))
       \<and> (link_group l = [] \<or> link_group l = ''General'' \<longrightarrow> groupKey l = ''General'')
       \<and> (se = None \<and> re = None \<and> savedTabsList w \<noteq> None
            \<and> (\<forall>it \<in> set (savedTabsCache (snd (handleSaveTabFormSubmit form freshId se re found w))).
                  groupKey it \<notin> set objectPrototypeKeys \<and> buttonsFound found it
                  \<and> (\<forall>n. toggleFound found (groupKey it) n))
            \<and> l \<in> set (savedTabsCache (snd (handleSaveTabFormSubmit form freshId se re found w)))
            \<and> (link_group l = [] \<or> link_group l = ''General'') \<longrightarrow>
            (\<exists>shown items.
               savedTabsList (snd (handleSaveTabFormSubmit form freshId se re found w)) = Some shown
               \<and> (''General'', items) \<in> set shown \<and> l \<in> set items))"
proof -
  let ?id = "case editing_savedtab_id form of Some v \<Rightarrow> trim v | None \<Rightarrow> []"
  let ?fd = "\<lparr> fd_id = (if truthy ?id then Some ?id else None),
                fd_title = trim (saved_tab_title form), fd_note = trim (saved_tab_note form),
                fd_url = trim (saved_tab_url form), fd_group = ''General'' \<rparr>"
  let ?new = "\<lparr> link_id = freshId, link_title = trim (saved_tab_title form),
                 link_url = trim (saved_tab_url form), link_note = trim (saved_tab_note form),
                 link_group = ''General'', link_starred = False \<rparr>"
  let ?R = "handleSaveTabFormSubmit form freshId se re found w"
  obtain w1 where w1: "savedTabsCache w1 = savedTabsCache w" "(savedTabsList w1 = None) = (savedTabsList w = None)"
    and quiet: "fst ?R = Inr ()"
    and cache: "savedTabsCache (snd ?R) = savedTabsCache (snd (saveOrUpdateSavedTab ?fd freshId se re found w1))"
    and store: "storageLocal (snd ?R) = storageLocal (snd (saveOrUpdateSavedTab ?fd freshId se re found w1))"
    and shown: "savedTabsList (snd ?R) = savedTabsList (snd (saveOrUpdateSavedTab ?fd freshId se re found w1))"
    using handleSaveTabFormSubmit_General [OF assms, of freshId se re found]
    by (elim exE conjE)
  have pushed: "savedTabsCache (snd ?R) = savedTabsCache w @ [?new]" if "?id = []"
    using saveOrUpdateSavedTab_cache [of ?fd freshId se re found w1] w1(1) cache that
    by (simp add: truthy_def)
  have updated: "idx < length (savedTabsCache w)
      \<and> savedTabsCache (snd ?R) =
          (savedTabsCache w)
            [idx := (savedTabsCache w ! idx)
               \<lparr>link_title := trim (saved_tab_title form), link_note := trim (saved_tab_note form),
                 link_url := trim (saved_tab_url form), link_group := ''General''\<rparr>]"
    if "?id \<noteq> []" and "findIndex (\<lambda>it. link_id it = ?id) (savedTabsCache w) = Some idx"
    using saveOrUpdateSavedTab_cache [of ?fd freshId se re found w1] w1(1) cache that
      findIndex_Some [OF that(2)]
    by (simp add: truthy_def edit_keeps_id)
  have ghost: "savedTabsCache (snd ?R) = savedTabsCache w"
    if "?id \<noteq> []" and "findIndex (\<lambda>it. link_id it = ?id) (savedTabsCache w) = None"
    using saveOrUpdateSavedTab_cache [of ?fd freshId se re found w1] w1(1) cache that
    by (simp add: truthy_def)
  have stored: "map_of (storageLocal (snd ?R)) ''linkHiveItems''
      = Some (JArr (map linkToJson (savedTabsCache (snd ?R))))" if "se = None"
    using saveOrUpdateSavedTab_stored [of ?fd freshId re found w1] cache store that
    by simp
  have key: "groupKey l = ''General''" if "link_group l = [] \<or> link_group l = ''General''"
    using that by (rule groupKey_General)
  have rendered: "\<exists>shown items. savedTabsList (snd ?R) = Some shown
        \<and> (''General'', items) \<in> set shown \<and> l \<in> set items"
    if ok: "se = None" "re = None" and present: "savedTabsList w \<noteq> None"
      and intact: "\<forall>it \<in> set (savedTabsCache (snd ?R)).
                  groupKey it \<notin> set objectPrototypeKeys \<and> buttonsFound found it
                  \<and> (\<forall>n. toggleFound found (groupKey it) n)"
      and member: "l \<in> set (savedTabsCache (snd ?R))"
      and general: "link_group l = [] \<or> link_group l = ''General''"
  proof -
    have present1: "savedTabsList w1 \<noteq> None"
      using present w1(2) by simp
    have cache0: "savedTabsCache (snd ?R) = savedTabsCache (snd (saveOrUpdateSavedTab ?fd freshId None None found w1))"
      using cache ok by simp
    have shown0: "savedTabsList (snd ?R) = savedTabsList (snd (saveOrUpdateSavedTab ?fd freshId None None found w1))"
      using shown ok by simp
    have "\<exists>shown items. savedTabsList (snd (saveOrUpdateSavedTab ?fd freshId None None found w1)) = Some shown
           \<and> (groupKey l, items) \<in> set shown \<and> l \<in> set items"
      using intact member unfolding cache0
      by (intro saveOrUpdateSavedTab_shown [OF present1])
    then show ?thesis
      unfolding shown0 key [OF general] .
  qed
  show ?thesis
    using quiet pushed updated ghost stored key rendered by blast
qed

theorem empty_group_saved_under_General_witness:
  "(fst (handleSaveTabFormSubmit
          \<lparr> editing_savedtab_id = Some [], saved_tab_title = ''Isabelle '', saved_tab_note = [],
             saved_tab_url = ''https://isabelle.in.tum.de'', saved_tab_group = [] \<rparr>
          ''id-1'' None None (\<lambda>html selector. True) loggedInWorld) = Inr ()
    \<and> savedTabsCache (snd (handleSaveTabFormSubmit
          \<lparr> editing_savedtab_id = Some [], saved_tab_title = ''Isabelle '', saved_tab_note = [],
             saved_tab_url = ''https://isabelle.in.tum.de'', saved_tab_group = [] \<rparr>
          ''id-1'' None None (\<lambda>html selector. True) loggedInWorld)) =
        [\<lparr> link_id = ''id-1'', link_title = ''Isabelle'', link_url = ''https://isabelle.in.tum.de'',
           link_note = [], link_group = ''General'', link_starred = False \<rparr>]
    \<and> (\<exists>shown items.
          savedTabsList (snd (handleSaveTabFormSubmit
           \<lparr> editing_savedtab_id = Some [], saved_tab_title = ''Isabelle '', saved_tab_note = [],
              saved_tab_url = ''https://isabelle.in.tum.de'', saved_tab_group = [] \<rparr>
           ''id-1'' None None (\<lambda>html selector. True) loggedInWorld)) = Some shown
          \<and> (''General'', items) \<in> set shown
          \<and> \<lparr> link_id = ''id-1'', link_title = ''Isabelle'', link_url = ''https://isabelle.in.tum.de'',
                link_note = [], link_group = ''General'', link_starred = False \<rparr> \<in> set items))
   \<and> (savedTabsCache (snd (handleSaveTabFormSubmit
          \<lparr> editing_savedtab_id = Some ''a1'', saved_tab_title = ''Docs'', saved_tab_note = [],
             saved_tab_url = ''https://a.example'', saved_tab_group = [] \<rparr>
          ''id-2'' None None (\<lambda>html selector. True)
          (loggedInWorld\<lparr>savedTabsCache :=
             [\<lparr> link_id = ''a1'', link_title = ''Docs'', link_url = ''https://a.example'',
                link_note = [], link_group = ''Work'', link_starred = True \<rparr>]\<rparr>))) =
        [\<lparr> link_id = ''a1'', link_title = ''Docs'', link_url = ''https://a.example'',
           link_note = [], link_group = ''General'', link_starred = True \<rparr>]
    \<and> (\<exists>shown items.
          savedTabsList (snd (handleSaveTabFormSubmit
           \<lparr> editing_savedtab_id = Some ''a1'', saved_tab_title = ''Docs'', saved_tab_note = [],
              saved_tab_url = ''https://a.example'', saved_tab_group = [] \<rparr>
           ''id-2'' None None (\<lambda>html selector. True)
           (loggedInWorld\<lparr>savedTabsCache :=
              [\<lparr> link_id = ''a1'', link_title = ''Docs'', link_url = ''https://a.example'',
                 link_note = [], link_group = ''Work'', link_starred = True \<rparr>]\<rparr>))) = Some shown
          \<and> (''General'', items) \<in> set shown
          \<and> \<lparr> link_id = ''a1'', link_title = ''Docs'', link_url = ''https://a.example'',
                link_note = [], link_group = ''General'', link_starred = True \<rparr> \<in> set items))"
  (is "?created \<and> ?edited")
proof -
  let ?anyParser = "\<lambda>html selector. True"
  let ?form = "\<lparr> editing_savedtab_id = Some [], saved_tab_title = ''Isabelle '', saved_tab_note = [],
                  saved_tab_url = ''https://isabelle.in.tum.de'', saved_tab_group = [] \<rparr>"
  let ?new = "\<lparr> link_id = ''id-1'', link_title = ''Isabelle'', link_url = ''https://isabelle.in.tum.de'',
                 link_note = [], link_group = ''General'', link_starred = False \<rparr>"
  let ?edit = "\<lparr> editing_savedtab_id = Some ''a1'', saved_tab_title = ''Docs'', saved_tab_note = [],
                  saved_tab_url = ''https://a.example'', saved_tab_group = [] \<rparr>"
  let ?before = "loggedInWorld\<lparr>savedTabsCache :=
                   [\<lparr> link_id = ''a1'', link_title = ''Docs'', link_url = ''https://a.example'',
                      link_note = [], link_group = ''Work'', link_starred = True \<rparr>]\<rparr>"
  let ?after = "\<lparr> link_id = ''a1'', link_title = ''Docs'', link_url = ''https://a.example'',
                   link_note = [], link_group = ''General'', link_starred = True \<rparr>"
  have trims: "trim ''Isabelle '' = ''Isabelle''"
      "trim ''https://isabelle.in.tum.de'' = ''https://isabelle.in.tum.de''"
      "trim [] = []" "trim ''a1'' = ''a1''" "trim ''Docs'' = ''Docs''"
      "trim ''https://a.example'' = ''https://a.example''"
    by code_simp+
  have keys: "groupKey ?new = ''General''" "groupKey ?after = ''General''"
    by (rule groupKey_General, simp)+
  have created: ?created
  proof -
    have h1: "saved_tab_group ?form = []"
      by simp
    have h2: "truthy (trim (saved_tab_title ?form))"
      by (simp add: trims truthy_def)
    have h3: "truthy (trim (saved_tab_url ?form))"
      by (simp add: trims truthy_def)
    have h4: "statusMessages loggedInWorld \<noteq> None"
      by (simp add: loggedInWorld_def)
    show ?thesis
      using empty_group_saved_under_General [OF h1 h2 h3 h4, where freshId = "''id-1''"
          and se = None and re = None and found = ?anyParser and l = ?new]
      by (simp add: trims keys General_not_inherited buttonsFound_def toggleFound_def
            loggedInWorld_def)
  qed
  have edited: ?edited
  proof -
    have h1: "saved_tab_group ?edit = []"
      by simp
    have h2: "truthy (trim (saved_tab_title ?edit))"
      by (simp add: trims truthy_def)
    have h3: "truthy (trim (saved_tab_url ?edit))"
      by (simp add: trims truthy_def)
    have h4: "statusMessages ?before \<noteq> None"
      by (simp add: loggedInWorld_def)
    show ?thesis
      using empty_group_saved_under_General [OF h1 h2 h3 h4, where freshId = "''id-2''"
          and se = None and re = None and found = ?anyParser and l = ?after and idx = 0]
      by (simp add: trims keys General_not_inherited buttonsFound_def toggleFound_def
            loggedInWorld_def)
  qed
  show ?thesis
    using created edited by (rule conjI)
qed

text \<open>
  C6 as stated fails for an edit under an id that is no longer in the cache (the
  link was deleted while its form was open): the guard \<open>idx !== -1\<close> skips the
  update, so nothing is filed under "General", and "Link updated" is shown.
\<close>

theorem empty_group_saved_under_General_counterexample:
  "saved_tab_group
     \<lparr> editing_savedtab_id = Some ''gone'', saved_tab_title = ''Isabelle'', saved_tab_note = [],
        saved_tab_url = ''https://isabelle.in.tum.de'', saved_tab_group = [] \<rparr> = []
   \<and> fst (handleSaveTabFormSubmit
          \<lparr> editing_savedtab_id = Some ''gone'', saved_tab_title = ''Isabelle'', saved_tab_note = [],
             saved_tab_url = ''https://isabelle.in.tum.de'', saved_tab_group = [] \<rparr>
          ''id-2'' None None (\<lambda>html selector. True)
          (loggedInWorld\<lparr>savedTabsCache :=
             [\<lparr> link_id = ''a1'', link_title = ''Docs'', link_url = ''https://a.example'',
                link_note = [], link_group = ''Work'', link_starred = False \<rparr>]\<rparr>)) = Inr ()
   \<and> savedTabsCache (snd (handleSaveTabFormSubmit
          \<lparr> editing_savedtab_id = Some ''gone'', saved_tab_title = ''Isabelle'', saved_tab_note = [],
             saved_tab_url = ''https://isabelle.in.tum.de'', saved_tab_group = [] \<rparr>
          ''id-2'' None None (\<lambda>html selector. True)
          (loggedInWorld\<lparr>savedTabsCache :=
             [\<lparr> link_id = ''a1'', link_title = ''Docs'', link_url = ''https://a.example'',
                link_note = [], link_group = ''Work'', link_starred = False \<rparr>]\<rparr>))) =
       [\<lparr> link_id = ''a1'', link_title = ''Docs'', link_url = ''https://a.example'',
          link_note = [], link_group = ''Work'', link_starred = False \<rparr>]
   \<and> map_of (storageLocal (snd (handleSaveTabFormSubmit
          \<lparr> editing_savedtab_id = Some ''gone'', saved_tab_title = ''Isabelle'', saved_tab_note = [],
             saved_tab_url = ''https://isabelle.in.tum.de'', saved_tab_group = [] \<rparr>
          ''id-2'' None None (\<lambda>html selector. True)
          (loggedInWorld\<lparr>savedTabsCache :=
             [\<lparr> link_id = ''a1'', link_title = ''Docs'', link_url = ''https://a.example'',
                link_note = [], link_group = ''Work'', link_starred = False \<rparr>]\<rparr>)))) ''linkHiveItems'' =
       Some (JArr [linkToJson
          \<lparr> link_id = ''a1'', link_title = ''Docs'', link_url = ''https://a.example'',
            link_note = [], link_group = ''Work'', link_starred = False \<rparr>])
   \<and> statusMessages (snd (handleSaveTabFormSubmit
          \<lparr> editing_savedtab_id = Some ''gone'', saved_tab_title = ''Isabelle'', saved_tab_note = [],
             saved_tab_url = ''https://isabelle.in.tum.de'', saved_tab_group = [] \<rparr>
          ''id-2'' None None (\<lambda>html selector. True)
          (loggedInWorld\<lparr>savedTabsCache :=
             [\<lparr> link_id = ''a1'', link_title = ''Docs'', link_url = ''https://a.example'',
                link_note = [], link_group = ''Work'', link_starred = False \<rparr>]\<rparr>))) =
       Some [(''Link updated'', ''success'')]"
  by code_simp

end
